theory Spec2Isabelle
  imports Complex_Main

begin

section \<open>Data model of image.py\<close>

text \<open>
  The script talks to four outside parties: the HTTP API, the image directory, the
  e-ink panel and the clock. What the script changes (directory, log file, panel,
  time slept) is the record \<open>world\<close>; what the outside answers during one refresh
  (HTTP replies, decoder results, clock reading, panel errors) is the record \<open>env\<close>.
  Only subclasses of Python's \<open>Exception\<close> are modelled as exceptions, so the handler
  \<open>except Exception\<close> catches every modelled exception; asynchronous signals
  (\<open>KeyboardInterrupt\<close>) are not part of the model.
\<close>

datatype exn_class =
  RequestException | AttributeError | TypeError | ValueError | OSError | OtherException

datatype exn = Exn exn_class string

fun class_of :: "exn \<Rightarrow> exn_class" where
  "class_of (Exn c m) = c"

datatype json =
  JNull | JBool bool | JNum int | JStr string | JArr "json list" | JObj "(string \<times> json) list"

type_synonym bytes = "nat list"

datatype image = Image nat

record response =
  status :: nat
  json_body :: "json option"
  content :: bytes

record datetime =
  year :: nat
  month :: nat
  day :: nat
  hour :: nat
  minute :: nat
  second :: nat

record cfile =
  mtime :: int
  picture :: image

datatype level = INFO | WARNING | ERROR

datatype log_arg = AJson json | APath string | AExn exn | AInt int | ANat nat | AStr string

type_synonym log_entry = "level \<times> string \<times> log_arg list"

datatype panel_call = SetImage image "rat option" | SetBorder | Show

record world =
  cache :: "(string \<times> cfile) list"
  log :: "log_entry list"
  panel :: "panel_call list"
  slept :: "int list"

record env =
  api_get :: "exn + response"
  image_get :: "json \<Rightarrow> exn + response"
  image_decode :: "bytes \<Rightarrow> exn + image"
  now :: datetime
  save_error :: "exn option"
  save_leaves :: "cfile option"
  save_mtime :: int
  listdir_error :: "exn option"
  image_open :: "string \<Rightarrow> exn + image"
  resize :: "image \<Rightarrow> nat \<times> nat \<Rightarrow> exn + image"
  resolution :: "nat \<times> nat"
  set_image_sat :: "exn option"
  set_image_plain :: "exn option"
  set_border_error :: "exn option"
  show_error :: "exn option"

section \<open>Library behaviour the script relies on\<close>

definition logging :: "level \<Rightarrow> string \<Rightarrow> log_arg list \<Rightarrow> world \<Rightarrow> world" where
  "logging lvl msg args w = w\<lparr>log := log w @ [(lvl, msg, args)]\<rparr>"

definition panel_call :: "panel_call \<Rightarrow> world \<Rightarrow> world" where
  "panel_call c w = w\<lparr>panel := panel w @ [c]\<rparr>"

text \<open>Python truthiness of a decoded JSON value (\<open>if image_url:\<close>).\<close>

fun truthy :: "json \<Rightarrow> bool" where
  "truthy JNull = False"
| "truthy (JBool b) = b"
| "truthy (JNum n) = (n \<noteq> 0)"
| "truthy (JStr s) = (s \<noteq> [])"
| "truthy (JArr xs) = (xs \<noteq> [])"
| "truthy (JObj kvs) = (kvs \<noteq> [])"

text \<open>\<open>x.get(key, default)\<close>: only a dict has the method; on anything else the
  attribute lookup raises \<open>AttributeError\<close>.\<close>

fun py_get :: "json \<Rightarrow> string \<Rightarrow> json \<Rightarrow> exn + json" where
  "py_get (JObj kvs) k d = Inr (case map_of kvs k of Some v \<Rightarrow> v | None \<Rightarrow> d)"
| "py_get v k d = Inl (Exn AttributeError ''object has no attribute 'get' '')"

text \<open>\<open>response.raise_for_status()\<close> raises \<open>HTTPError\<close> (a \<open>RequestException\<close>) for
  the status codes 400 to 599 and for no other.\<close>

definition raise_for_status :: "response \<Rightarrow> exn + unit" where
  "raise_for_status r =
     (if 400 \<le> status r \<and> status r < 600 then Inl (Exn RequestException ''HTTPError'')
      else Inr ())"

text \<open>\<open>response.json()\<close>: the decoded body, or \<open>requests.exceptions.JSONDecodeError\<close>
  (a \<open>RequestException\<close>) when the body is not JSON.\<close>

definition response_json :: "response \<Rightarrow> exn + json" where
  "response_json r =
     (case json_body r of None \<Rightarrow> Inl (Exn RequestException ''JSONDecodeError'')
      | Some data \<Rightarrow> Inr data)"

definition endswith :: "string \<Rightarrow> string \<Rightarrow> bool" where
  "endswith s suf = (length suf \<le> length s \<and> drop (length s - length suf) s = suf)"

definition digit :: "nat \<Rightarrow> char" where
  "digit d = ''0123456789'' ! (d mod 10)"

definition pad2 :: "nat \<Rightarrow> string" where
  "pad2 n = [digit (n div 10), digit n]"

definition pad4 :: "nat \<Rightarrow> string" where
  "pad4 n = [digit (n div 1000), digit (n div 100), digit (n div 10), digit n]"

text \<open>\<open>strftime("%Y%m%d_%H%M%S")\<close>, for the years 1000 to 9999.\<close>

definition strftime :: "datetime \<Rightarrow> string" where
  "strftime t = pad4 (year t) @ pad2 (month t) @ pad2 (day t) @ ''_''
                @ pad2 (hour t) @ pad2 (minute t) @ pad2 (second t)"

definition IMAGE_DIR :: string where
  "IMAGE_DIR = ''images''"

definition path_join :: "string \<Rightarrow> string \<Rightarrow> string" where
  "path_join d f = d @ ''/'' @ f"

text \<open>Writing a file of the directory: a file of that name is replaced where it stands,
  a new name is added to the listing.\<close>

fun write_file :: "string \<Rightarrow> cfile \<Rightarrow> (string \<times> cfile) list \<Rightarrow> (string \<times> cfile) list" where
  "write_file name f [] = [(name, f)]"
| "write_file name f ((n, g) # rest) =
     (if n = name then (name, f) # rest else (n, g) # write_file name f rest)"

text \<open>\<open>list.index\<close>: the first position of the element, \<open>ValueError\<close> when it is absent.\<close>

fun index_of :: "'a list \<Rightarrow> 'a \<Rightarrow> exn + nat" where
  "index_of [] x = Inl (Exn ValueError ''is not in list'')"
| "index_of (y # ys) x =
     (if y = x then Inr 0
      else (case index_of ys x of Inl e \<Rightarrow> Inl e | Inr i \<Rightarrow> Inr (Suc i)))"

section \<open>The functions of image.py\<close>

definition BUTTONS :: "nat list" where
  "BUTTONS = [5, 6, 16, 24]"

definition LABELS :: "string list" where
  "LABELS = [''A'', ''B'', ''C'', ''D'']"

text \<open>\<open>OFFSETS\<close> is computed from the GPIO chip found at start-up; the chip's
  \<open>line_offset_from_id\<close> is the parameter \<open>chip\<close>.\<close>

definition OFFSETS :: "(nat \<Rightarrow> nat) \<Rightarrow> nat list" where
  "OFFSETS chip = map chip BUTTONS"

text \<open>The body of the \<open>try\<close> of \<open>fetch_image_url\<close>, up to the value of \<open>image_url\<close>.\<close>

definition fetch_body :: "env \<Rightarrow> exn + json" where
  "fetch_body env =
     (case api_get env of Inl e \<Rightarrow> Inl e
      | Inr response \<Rightarrow>
        (case raise_for_status response of Inl e \<Rightarrow> Inl e
         | Inr _ \<Rightarrow>
           (case response_json response of Inl e \<Rightarrow> Inl e
            | Inr data \<Rightarrow>
              (case py_get data ''images'' (JObj []) of Inl e \<Rightarrow> Inl e
               | Inr images \<Rightarrow> py_get images ''small'' JNull))))"

definition fetch_image_url :: "env \<Rightarrow> world \<Rightarrow> (exn + json) \<times> world" where
  "fetch_image_url env w =
     (case fetch_body env of
        Inr image_url \<Rightarrow>
          (Inr image_url,
           if truthy image_url
           then logging INFO ''Fetched image URL: {image_url}'' [AJson image_url] w
           else logging WARNING ''No image URL found in API response.'' [] w)
      | Inl e \<Rightarrow>
          (if class_of e = RequestException
           then (Inr JNull, logging ERROR ''Error fetching image URL: {e}'' [AExn e] w)
           else (Inl e, w)))"

text \<open>The first statements of the \<open>try\<close> of \<open>download_image\<close>: request, status
  check and decoding.\<close>

definition download_body :: "env \<Rightarrow> json \<Rightarrow> exn + image" where
  "download_body env image_url =
     (case image_get env image_url of Inl e \<Rightarrow> Inl e
      | Inr response \<Rightarrow>
        (case raise_for_status response of Inl e \<Rightarrow> Inl e
         | Inr _ \<Rightarrow> image_decode env (content response)))"

text \<open>The two handlers of \<open>download_image\<close>.\<close>

definition download_handlers :: "exn \<Rightarrow> world \<Rightarrow> string option \<times> world" where
  "download_handlers e w =
     (if class_of e = RequestException
      then (None, logging ERROR ''Error downloading image: {e}'' [AExn e] w)
      else (None, logging ERROR ''Unexpected error processing image: {e}'' [AExn e] w))"

definition stamp_name :: "env \<Rightarrow> string" where
  "stamp_name env = strftime (now env) @ ''.png''"

text \<open>\<open>image.save\<close> opens the file for writing before it encodes the picture. When it
  raises, what it has left in the directory is the library's affair: nothing, or a file of
  that name (\<open>save_leaves\<close>), which then replaces a file that was there.\<close>

definition download_image :: "env \<Rightarrow> json \<Rightarrow> world \<Rightarrow> string option \<times> world" where
  "download_image env image_url w =
     (if \<not> truthy image_url then (None, w)
      else
        (case download_body env image_url of
           Inr img \<Rightarrow>
             (let image_path = path_join IMAGE_DIR (stamp_name env)
              in (case save_error env of
                    None \<Rightarrow>
                      (let w1 = w\<lparr>cache := write_file (stamp_name env)
                                      \<lparr>mtime = save_mtime env, picture = img\<rparr> (cache w)\<rparr>
                       in (Some image_path,
                           logging INFO ''Saved new image: {image_path}'' [APath image_path] w1))
                  | Some e \<Rightarrow>
                      download_handlers e
                        (case save_leaves env of None \<Rightarrow> w
                         | Some f \<Rightarrow> w\<lparr>cache := write_file (stamp_name env) f (cache w)\<rparr>)))
         | Inl e \<Rightarrow> download_handlers e w))"

text \<open>The listing restricted to \<open>.png\<close> names, sorted by modification time, newest
  first. Python's \<open>sorted(..., reverse=True)\<close> is stable, as \<open>sort_key\<close> is.\<close>

definition png_files :: "world \<Rightarrow> (string \<times> cfile) list" where
  "png_files w = filter (\<lambda>f. endswith (fst f) ''.png'') (cache w)"

definition sorted_files :: "world \<Rightarrow> (string \<times> cfile) list" where
  "sorted_files w = sort_key (\<lambda>f. - mtime (snd f)) (png_files w)"

definition get_latest_saved_image :: "env \<Rightarrow> world \<Rightarrow> string option \<times> world" where
  "get_latest_saved_image env w =
     (case listdir_error env of
        Some e \<Rightarrow> (None, logging ERROR ''Error retrieving saved images: {e}'' [AExn e] w)
      | None \<Rightarrow>
        (case sorted_files w of
           [] \<Rightarrow> (None, w)
         | f # _ \<Rightarrow> (Some (path_join IMAGE_DIR (fst f)), w)))"

text \<open>The inner \<open>try\<close> of \<open>update_display\<close> with its handler \<open>except TypeError\<close>.\<close>

definition retry_set_image :: "env \<Rightarrow> image \<Rightarrow> exn \<Rightarrow> world \<Rightarrow> (exn + unit) \<times> world" where
  "retry_set_image env resized e w =
     (if class_of e = TypeError
      then (let w' = panel_call (SetImage resized None) w
            in (case set_image_plain env of Some e' \<Rightarrow> (Inl e', w') | None \<Rightarrow> (Inr (), w')))
      else (Inl e, w))"

definition set_image_block :: "env \<Rightarrow> image \<Rightarrow> rat \<Rightarrow> world \<Rightarrow> (exn + unit) \<times> world" where
  "set_image_block env resized saturation w =
     (let w1 = panel_call (SetImage resized (Some saturation)) w
      in (case set_image_sat env of
            Some e \<Rightarrow> retry_set_image env resized e w1
          | None \<Rightarrow>
            (let w2 = panel_call SetBorder w1
             in (case set_border_error env of
                   Some e \<Rightarrow> retry_set_image env resized e w2
                 | None \<Rightarrow> (Inr (), w2)))))"

text \<open>The outer \<open>try\<close> of \<open>update_display\<close>.\<close>

definition display_body :: "env \<Rightarrow> string \<Rightarrow> rat \<Rightarrow> world \<Rightarrow> (exn + unit) \<times> world" where
  "display_body env image_path saturation w =
     (case image_open env image_path of Inl e \<Rightarrow> (Inl e, w)
      | Inr img \<Rightarrow>
        (case resize env img (resolution env) of Inl e \<Rightarrow> (Inl e, w)
         | Inr resized_image \<Rightarrow>
           (case set_image_block env resized_image saturation w of
              (Inl e, w1) \<Rightarrow> (Inl e, w1)
            | (Inr _, w1) \<Rightarrow>
              (let w2 = panel_call Show w1
               in (case show_error env of
                     Some e \<Rightarrow> (Inl e, w2)
                   | None \<Rightarrow>
                     (Inr (), logging INFO ''Display updated with image from {image_path}''
                                [APath image_path] w2))))))"

text \<open>\<open>not image_path\<close> holds for \<open>None\<close> and for the empty string.\<close>

fun no_path :: "string option \<Rightarrow> bool" where
  "no_path None = True"
| "no_path (Some p) = (p = [])"

definition update_display :: "env \<Rightarrow> string option \<Rightarrow> rat \<Rightarrow> world \<Rightarrow> (exn + unit) \<times> world" where
  "update_display env image_path saturation w =
     (case image_path of
        None \<Rightarrow> (Inr (), logging WARNING ''No valid image found. Skipping update.'' [] w)
      | Some p \<Rightarrow>
        (if p = [] then (Inr (), logging WARNING ''No valid image found. Skipping update.'' [] w)
         else
           (case display_body env p saturation w of
              (Inl e, w') \<Rightarrow> (Inr (), logging ERROR ''Error displaying image: {e}'' [AExn e] w')
            | (Inr u, w') \<Rightarrow> (Inr u, w'))))"

definition default_saturation :: rat where
  "default_saturation = 4 / 5"

text \<open>The two assignments to \<open>image_path\<close> in \<open>refresh_image\<close>.\<close>

definition obtain_image :: "env \<Rightarrow> json \<Rightarrow> world \<Rightarrow> string option \<times> world" where
  "obtain_image env image_url w =
     (if truthy image_url then download_image env image_url w else (None, w))"

definition fallback_image :: "env \<Rightarrow> string option \<times> world \<Rightarrow> string option \<times> world" where
  "fallback_image env r =
     (if no_path (fst r)
      then get_latest_saved_image env (logging WARNING ''Falling back to last saved image.'' [] (snd r))
      else r)"

definition refresh_image :: "env \<Rightarrow> world \<Rightarrow> (exn + unit) \<times> world" where
  "refresh_image env w =
     (case fetch_image_url env (logging INFO ''Refreshing image...'' [] w) of
        (Inl e, w1) \<Rightarrow> (Inl e, w1)
      | (Inr image_url, w1) \<Rightarrow>
        (case fallback_image env (obtain_image env image_url w1) of
           (image_path, w2) \<Rightarrow> update_display env image_path default_saturation w2))"

text \<open>The body of the \<open>for\<close> loop of \<open>button_listener\<close>, for one event. The index found
  is below the length of \<open>OFFSETS\<close>, which is the length of \<open>BUTTONS\<close> and \<open>LABELS\<close>.\<close>

definition handle_event :: "(nat \<Rightarrow> nat) \<Rightarrow> env \<Rightarrow> nat \<Rightarrow> world \<Rightarrow> (exn + unit) \<times> world" where
  "handle_event chip env line_offset w =
     (case index_of (OFFSETS chip) line_offset of
        Inl e \<Rightarrow> (Inl e, w)
      | Inr index \<Rightarrow>
        (let gpio_number = BUTTONS ! index;
             label = LABELS ! index;
             w1 = logging INFO ''Button press detected on GPIO #{gpio_number} label: {label}''
                    [ANat gpio_number, AStr label] w
         in if label = ''B''
            then refresh_image env (logging INFO ''Button B pressed: Fetching new image...'' [] w1)
            else (Inr (), w1)))"

text \<open>One batch of \<open>read_edge_events()\<close>: each event comes with the answers of the
  outside world during its refresh. An exception ends the loop.\<close>

fun process_events :: "(nat \<Rightarrow> nat) \<Rightarrow> (nat \<times> env) list \<Rightarrow> world \<Rightarrow> (exn + unit) \<times> world" where
  "process_events chip [] w = (Inr (), w)"
| "process_events chip (ev # evs) w =
     (case handle_event chip (snd ev) (fst ev) w of
        (Inl e, w') \<Rightarrow> (Inl e, w')
      | (Inr _, w') \<Rightarrow> process_events chip evs w')"

text \<open>The \<open>while True\<close> of \<open>button_listener\<close> never ends by itself. It is run on the
  batches delivered so far: \<open>Inr ()\<close> says that the listener waits for the next batch,
  \<open>Inl e\<close> that the exception \<open>e\<close> has ended it.\<close>

fun listen :: "(nat \<Rightarrow> nat) \<Rightarrow> (nat \<times> env) list list \<Rightarrow> world \<Rightarrow> (exn + unit) \<times> world" where
  "listen chip [] w = (Inr (), w)"
| "listen chip (b # bs) w =
     (case process_events chip b w of
        (Inl e, w') \<Rightarrow> (Inl e, w')
      | (Inr _, w') \<Rightarrow> listen chip bs w')"

definition button_listener :: "(nat \<Rightarrow> nat) \<Rightarrow> (nat \<times> env) list list \<Rightarrow> world \<Rightarrow> (exn + unit) \<times> world" where
  "button_listener chip batches w =
     listen chip batches
       (logging INFO ''Button listener started. Waiting for button presses...'' [] w)"

definition seconds_until_next_hour :: "datetime \<Rightarrow> int" where
  "seconds_until_next_hour t = (60 - int (minute t)) * 60 - int (second t)"

text \<open>\<open>time.sleep\<close> raises \<open>ValueError\<close> on a negative length.\<close>

definition sleep :: "int \<Rightarrow> world \<Rightarrow> (exn + unit) \<times> world" where
  "sleep secs w =
     (if secs < 0 then (Inl (Exn ValueError ''sleep length must be non-negative''), w)
      else (Inr (), w\<lparr>slept := slept w @ [secs]\<rparr>))"

text \<open>One turn of the \<open>while True\<close> of \<open>auto_refresh\<close>, started at clock reading \<open>t\<close>.\<close>

definition auto_refresh_cycle :: "datetime \<Rightarrow> env \<Rightarrow> world \<Rightarrow> (exn + unit) \<times> world" where
  "auto_refresh_cycle t env w =
     (let secs = seconds_until_next_hour t
      in (case sleep secs
                 (logging INFO ''Sleeping for {seconds_until_next_hour} seconds until the next top of the hour...''
                    [AInt secs] w) of
            (Inl e, w1) \<Rightarrow> (Inl e, w1)
          | (Inr _, w1) \<Rightarrow>
            refresh_image env
              (logging INFO ''Top of the hour reached. Refreshing image ...'' [] w1)))"

text \<open>The scheduler loop on the turns made so far, as \<open>listen\<close> above.\<close>

fun auto_refresh :: "(datetime \<times> env) list \<Rightarrow> world \<Rightarrow> (exn + unit) \<times> world" where
  "auto_refresh [] w = (Inr (), w)"
| "auto_refresh (c # cs) w =
     (case auto_refresh_cycle (fst c) (snd c) w of
        (Inl e, w') \<Rightarrow> (Inl e, w')
      | (Inr _, w') \<Rightarrow> auto_refresh cs w')"

section \<open>Notions used to state the properties\<close>


definition newest :: "world \<Rightarrow> string \<times> cfile \<Rightarrow> bool" where
  "newest w f = (f \<in> set (png_files w) \<and> (\<forall>g\<in>set (png_files w). mtime (snd g) \<le> mtime (snd f)))"

definition count_level :: "level \<Rightarrow> world \<Rightarrow> nat" where
  "count_level lvl w = length (filter (\<lambda>e. fst e = lvl) (log w))"

definition refreshes :: "world \<Rightarrow> nat" where
  "refreshes w = length (filter (\<lambda>e. e = (INFO, ''Refreshing image...'', [])) (log w))"

text \<open>A metadata response arrived, passed \<open>raise_for_status\<close> and was decoded by
  \<open>response.json()\<close>.\<close>

definition response_parsed :: "env \<Rightarrow> bool" where
  "response_parsed env =
     (case api_get env of Inl e \<Rightarrow> False
      | Inr r \<Rightarrow> \<not> (400 \<le> status r \<and> status r < 600) \<and> json_body r \<noteq> None)"

text \<open>From \<open>w\<close> to \<open>w'\<close> no file name of the directory is lost, and a file keeps its
  record unless its name is one of \<open>stamps\<close>.\<close>

definition grows_only :: "string set \<Rightarrow> world \<Rightarrow> world \<Rightarrow> bool" where
  "grows_only stamps w w' =
     (\<forall>n \<in> fst ` set (cache w).
        n \<in> fst ` set (cache w') \<and> (n \<notin> stamps \<longrightarrow> map_of (cache w') n = map_of (cache w) n))"

text \<open>Concrete inputs, on which the properties below are exercised.\<close>

definition sample_time :: datetime where
  "sample_time = \<lparr>year = 2024, month = 1, day = 1, hour = 12, minute = 0, second = 0\<rparr>"

definition quarter_time :: datetime where
  "quarter_time = \<lparr>year = 2024, month = 1, day = 1, hour = 12, minute = 34, second = 56\<rparr>"

definition good_response :: response where
  "good_response = \<lparr>status = 200,
     json_body = Some (JObj [(''images'', JObj [(''small'', JStr ''http://img'')])]),
     content = []\<rparr>"

definition image_response :: response where
  "image_response = \<lparr>status = 200, json_body = None, content = [137, 80, 78, 71]\<rparr>"

definition env_online :: env where
  "env_online = \<lparr>api_get = Inr good_response,
     image_get = (\<lambda>u. Inr image_response),
     image_decode = (\<lambda>b. Inr (Image 7)),
     now = sample_time,
     save_error = None,
     save_leaves = None,
     save_mtime = 100,
     listdir_error = None,
     image_open = (\<lambda>p. Inr (Image 7)),
     resize = (\<lambda>i r. Inr i),
     resolution = (800, 480),
     set_image_sat = None,
     set_image_plain = None,
     set_border_error = None,
     show_error = None\<rparr>"

definition env_offline :: env where
  "env_offline = env_online\<lparr>api_get := Inl (Exn RequestException ''ConnectionError'')\<rparr>"

definition empty_world :: world where
  "empty_world = \<lparr>cache = [], log = [], panel = [], slept = []\<rparr>"

definition old_world :: world where
  "old_world = \<lparr>cache = [(''20240101_120000.png'', \<lparr>mtime = 50, picture = Image 3\<rparr>)],
     log = [], panel = [], slept = []\<rparr>"

definition two_world :: world where
  "two_world = \<lparr>cache = [(''a.png'', \<lparr>mtime = 10, picture = Image 1\<rparr>),
                           (''b.png'', \<lparr>mtime = 20, picture = Image 2\<rparr>),
                           (''notes.txt'', \<lparr>mtime = 30, picture = Image 0\<rparr>)],
     log = [], panel = [], slept = []\<rparr>"

definition two_world_rev :: world where
  "two_world_rev = \<lparr>cache = [(''notes.txt'', \<lparr>mtime = 30, picture = Image 0\<rparr>),
                               (''b.png'', \<lparr>mtime = 20, picture = Image 2\<rparr>),
                               (''a.png'', \<lparr>mtime = 10, picture = Image 1\<rparr>)],
     log = [], panel = [], slept = []\<rparr>"

definition tie_world :: world where
  "tie_world = \<lparr>cache = [(''a.png'', \<lparr>mtime = 20, picture = Image 1\<rparr>),
                           (''b.png'', \<lparr>mtime = 20, picture = Image 2\<rparr>)],
     log = [], panel = [], slept = []\<rparr>"

definition tie_world_rev :: world where
  "tie_world_rev = \<lparr>cache = [(''b.png'', \<lparr>mtime = 20, picture = Image 2\<rparr>),
                               (''a.png'', \<lparr>mtime = 20, picture = Image 1\<rparr>)],
     log = [], panel = [], slept = []\<rparr>"

definition env_unlistable :: env where
  "env_unlistable = env_offline\<lparr>listdir_error := Some (Exn OSError ''FileNotFoundError'')\<rparr>"

definition redirect_response :: response where
  "redirect_response = \<lparr>status = 300,
     json_body = Some (JObj [(''images'', JObj [(''small'', JStr ''http://img'')])]),
     content = []\<rparr>"

definition broken_response :: response where
  "broken_response = \<lparr>status = 200,
     json_body = Some (JObj [(''images'', JStr ''none'')]), content = []\<rparr>"

definition missing_response :: response where
  "missing_response = \<lparr>status = 404, json_body = None, content = []\<rparr>"

definition malformed_response :: response where
  "malformed_response = \<lparr>status = 200, json_body = None, content = []\<rparr>"

definition no_url_response :: response where
  "no_url_response = \<lparr>status = 200,
     json_body = Some (JObj [(''images'', JObj [(''large'', JStr ''http://big'')])]),
     content = []\<rparr>"

definition env_not_found :: env where
  "env_not_found = env_online\<lparr>api_get := Inr missing_response\<rparr>"

definition env_no_url :: env where
  "env_no_url = env_online\<lparr>api_get := Inr no_url_response\<rparr>"

definition env_no_saturation :: env where
  "env_no_saturation =
     env_online\<lparr>set_image_sat := Some (Exn TypeError ''unexpected keyword argument saturation'')\<rparr>"

definition env_later :: env where
  "env_later = env_online\<lparr>now := quarter_time\<rparr>"

section \<open>Auxiliary facts\<close>

lemma index_of_mem:
  "x \<in> set xs \<Longrightarrow> \<exists>i. index_of xs x = Inr i \<and> i < length xs \<and> xs ! i = x \<and> (\<forall>j<i. xs ! j \<noteq> x)"
proof (induction xs)
  case Nil
  then show ?case by simp
next
  case (Cons y ys)
  show ?case
  proof (cases "y = x")
    case True
    then show ?thesis by simp
  next
    case False
    with Cons.prems have "x \<in> set ys" by simp
    from Cons.IH [OF this] obtain i where
      i: "index_of ys x = Inr i" "i < length ys" "ys ! i = x" "\<forall>j<i. ys ! j \<noteq> x"
      by blast
    have "\<forall>j<Suc i. (y # ys) ! j \<noteq> x"
      using False i(4) by (auto simp: nth_Cons split: nat.splits)
    with False i show ?thesis by simp
  qed
qed

lemma index_of_absent:
  "x \<notin> set xs \<Longrightarrow> index_of xs x = Inl (Exn ValueError ''is not in list'')"
  by (induction xs) auto

lemma index_of_nth:
  "distinct xs \<Longrightarrow> i < length xs \<Longrightarrow> index_of xs (xs ! i) = Inr i"
proof (induction xs arbitrary: i)
  case Nil
  then show ?case by simp
next
  case (Cons y ys)
  show ?case
  proof (cases i)
    case 0
    then show ?thesis by simp
  next
    case (Suc k)
    with Cons.prems have k: "k < length ys" "distinct ys" "y \<notin> set ys" by auto
    then have "ys ! k \<noteq> y" by (metis nth_mem)
    with Cons.IH [OF k(2) k(1)] Suc show ?thesis by auto
  qed
qed

lemma length_OFFSETS: "length (OFFSETS chip) = 4"
  by (simp add: OFFSETS_def BUTTONS_def)




lemma logging_fields [simp]:
  "cache (logging l m a w) = cache w"
  "panel (logging l m a w) = panel w"
  "slept (logging l m a w) = slept w"
  "log (logging l m a w) = log w @ [(l, m, a)]"
  by (simp_all add: logging_def)

lemma panel_call_fields [simp]:
  "cache (panel_call c w) = cache w"
  "panel (panel_call c w) = panel w @ [c]"
  "slept (panel_call c w) = slept w"
  "log (panel_call c w) = log w"
  by (simp_all add: panel_call_def)

lemma fetch_keeps:
  "cache (snd (fetch_image_url env w)) = cache w"
  "panel (snd (fetch_image_url env w)) = panel w"
  "slept (snd (fetch_image_url env w)) = slept w"
  by (simp_all add: fetch_image_url_def split: sum.splits)

lemma fetch_result_indep:
  "fst (fetch_image_url env w) = fst (fetch_image_url env w')"
  by (simp add: fetch_image_url_def split: sum.splits)

lemma download_Some:
  assumes "download_image env u w = (Some p, w')"
  shows "p = path_join IMAGE_DIR (stamp_name env)"
    and "\<exists>img. download_body env u = Inr img \<and>
           cache w' = write_file (stamp_name env) \<lparr>mtime = save_mtime env, picture = img\<rparr> (cache w)"
    and "panel w' = panel w" and "slept w' = slept w"
    and "log w' = log w @ [(INFO, ''Saved new image: {image_path}'', [APath p])]"
  using assms
  by (auto simp: download_image_def download_handlers_def Let_def
           split: if_splits sum.splits option.splits)

lemma download_None:
  assumes "download_image env u w = (None, w')"
  shows "panel w' = panel w" and "slept w' = slept w"
  using assms
  by (auto simp: download_image_def download_handlers_def Let_def
           split: if_splits sum.splits option.splits)

lemma latest_keeps:
  "cache (snd (get_latest_saved_image env w)) = cache w"
  "panel (snd (get_latest_saved_image env w)) = panel w"
  "slept (snd (get_latest_saved_image env w)) = slept w"
  by (simp_all add: get_latest_saved_image_def split: option.splits list.splits)

lemma retry_keeps:
  "cache (snd (retry_set_image env r e w)) = cache w"
  "slept (snd (retry_set_image env r e w)) = slept w"
  "log (snd (retry_set_image env r e w)) = log w"
  by (simp_all add: retry_set_image_def Let_def split: option.splits)

lemma set_image_block_keeps:
  "cache (snd (set_image_block env r s w)) = cache w"
  "slept (snd (set_image_block env r s w)) = slept w"
  "log (snd (set_image_block env r s w)) = log w"
  by (simp_all add: set_image_block_def Let_def retry_keeps split: option.splits)

lemma set_image_block_keepsD:
  "set_image_block env r s w = (x, w1) \<Longrightarrow> cache w1 = cache w \<and> slept w1 = slept w \<and> log w1 = log w"
  using set_image_block_keeps [of env r s w] by simp

lemma display_body_keeps:
  "cache (snd (display_body env p s w)) = cache w"
  "slept (snd (display_body env p s w)) = slept w"
  by (auto simp: display_body_def Let_def split: sum.splits prod.splits option.splits
           dest!: set_image_block_keepsD)

lemma display_body_keepsD:
  "display_body env p s w = (x, w1) \<Longrightarrow> cache w1 = cache w \<and> slept w1 = slept w"
  using display_body_keeps [of env p s w] by simp

lemma update_display_keeps:
  "cache (snd (update_display env ip s w)) = cache w"
  "slept (snd (update_display env ip s w)) = slept w"
  by (auto simp: update_display_def split: option.splits sum.splits prod.splits
           dest!: display_body_keepsD)

lemma update_display_returns:
  "fst (update_display env ip s w) = Inr ()"
  by (auto simp: update_display_def split: option.splits sum.splits prod.splits)

lemma update_display_no_path:
  "no_path ip \<Longrightarrow> update_display env ip s w =
     (Inr (), logging WARNING ''No valid image found. Skipping update.'' [] w)"
  by (cases ip) (auto simp: update_display_def)

lemma hd_sort_key_least:
  assumes "xs \<noteq> []"
  shows "hd (sort_key f xs) \<in> set xs \<and> (\<forall>x\<in>set xs. f (hd (sort_key f xs)) \<le> f x)"
proof -
  obtain y ys where ys: "sort_key f xs = y # ys"
    using assms by (cases "sort_key f xs") (auto dest: arg_cong [where f = length])
  have s: "sorted (map f (y # ys))" using sorted_sort_key [of f xs] ys by simp
  have m: "set (y # ys) = set xs" using set_sort [of f xs] ys by simp
  have "\<forall>x\<in>set xs. f y \<le> f x" using s m by auto
  moreover have "y \<in> set xs" using m by auto
  ultimately show ?thesis using ys by simp
qed

lemma sorted_files_Nil: "sorted_files w = [] \<longleftrightarrow> png_files w = []"
  by (auto simp: sorted_files_def dest: arg_cong [where f = length])

lemma sorted_files_hd:
  assumes "png_files w \<noteq> []"
  shows "\<exists>f fs. sorted_files w = f # fs \<and> newest w f"
proof -
  from hd_sort_key_least [OF assms, of "\<lambda>f. - mtime (snd f)"]
  have h: "hd (sorted_files w) \<in> set (png_files w)"
          "\<forall>g\<in>set (png_files w). mtime (snd g) \<le> mtime (snd (hd (sorted_files w)))"
    by (auto simp: sorted_files_def)
  from assms obtain f fs where "sorted_files w = f # fs"
    by (cases "sorted_files w") (auto simp: sorted_files_Nil)
  with h show ?thesis by (auto simp: newest_def)
qed

lemma latest_newest:
  assumes "listdir_error env = None" "png_files w \<noteq> []"
  shows "\<exists>f. newest w f \<and> get_latest_saved_image env w = (Some (path_join IMAGE_DIR (fst f)), w)"
  using sorted_files_hd [OF assms(2)] assms(1)
  by (auto simp: get_latest_saved_image_def)

lemma latest_empty:
  assumes "png_files w = []"
  shows "get_latest_saved_image env w =
    (None, case listdir_error env of None \<Rightarrow> w
           | Some e \<Rightarrow> logging ERROR ''Error retrieving saved images: {e}'' [AExn e] w)"
proof -
  from assms have "sorted_files w = []" by (simp add: sorted_files_Nil)
  then show ?thesis by (simp add: get_latest_saved_image_def split: option.splits)
qed

lemma write_file_names_new:
  "name \<notin> fst ` set xs \<Longrightarrow> map fst (write_file name f xs) = map fst xs @ [name]"
  by (induction xs) auto

lemma write_file_names_old:
  "name \<in> fst ` set xs \<Longrightarrow> map fst (write_file name f xs) = map fst xs"
proof (induction xs)
  case Nil
  then show ?case by simp
next
  case (Cons x xs)
  obtain n g where x: "x = (n, g)" by (cases x)
  show ?case
  proof (cases "n = name")
    case True
    with x show ?thesis by simp
  next
    case False
    with Cons.prems x have "name \<in> fst ` set xs" by auto
    with Cons.IH False x show ?thesis by simp
  qed
qed

lemma map_of_write_file:
  "map_of (write_file name f xs) = (map_of xs)(name \<mapsto> f)"
  by (induction xs) (auto simp: fun_eq_iff)

lemma write_file_names:
  "fst ` set (write_file name f xs) = insert name (fst ` set xs)"
  by (simp add: dom_map_of_conv_image_fst [symmetric] map_of_write_file)

lemma path_nonempty: "path_join IMAGE_DIR n \<noteq> []"
  by (simp add: path_join_def IMAGE_DIR_def)

lemma endswith_append: "endswith (s @ suf) suf"
  by (simp add: endswith_def)

lemma stamp_name_png: "endswith (stamp_name env) ''.png''"
  unfolding stamp_name_def by (rule endswith_append)

lemma refresh_fresh:
  assumes "fetch_image_url env (logging INFO ''Refreshing image...'' [] w) = (Inr url, w1)"
    and "truthy url" and "download_image env url w1 = (Some p, w2)"
  shows "refresh_image env w = update_display env (Some p) default_saturation w2"
proof -
  have "p \<noteq> []" using download_Some(1) [OF assms(3)] path_nonempty by simp
  then show ?thesis
    using assms by (simp add: refresh_image_def obtain_image_def fallback_image_def)
qed

lemma refresh_fallback:
  assumes "fetch_image_url env (logging INFO ''Refreshing image...'' [] w) = (Inr url, w1)"
    and "\<not> truthy url"
  shows "refresh_image env w =
     (case get_latest_saved_image env (logging WARNING ''Falling back to last saved image.'' [] w1) of
        (image_path, w2) \<Rightarrow> update_display env image_path default_saturation w2)"
  using assms by (simp add: refresh_image_def obtain_image_def fallback_image_def)

lemma png_files_logging [simp]: "png_files (logging l m a w) = png_files w"
  by (simp add: png_files_def)

lemma newest_logging [simp]: "newest (logging l m a w) f = newest w f"
  by (simp add: newest_def)

lemma png_files_cong: "cache w' = cache w \<Longrightarrow> png_files w' = png_files w"
  by (simp add: png_files_def)


lemma refreshes_cong: "log w' = log w \<Longrightarrow> refreshes w' = refreshes w"
  by (simp add: refreshes_def)








lemma OFFSETS_nth:
  "OFFSETS chip ! 0 = chip 5" "OFFSETS chip ! 1 = chip 6"
  "OFFSETS chip ! 2 = chip 16" "OFFSETS chip ! 3 = chip 24"
  by (simp_all add: OFFSETS_def BUTTONS_def)

lemma handle_event_known:
  assumes "distinct (OFFSETS chip)" "i < 4"
  shows "handle_event chip env (OFFSETS chip ! i) w =
     (let w1 = logging INFO ''Button press detected on GPIO #{gpio_number} label: {label}''
                 [ANat (BUTTONS ! i), AStr (LABELS ! i)] w
      in if LABELS ! i = ''B''
         then refresh_image env (logging INFO ''Button B pressed: Fetching new image...'' [] w1)
         else (Inr (), w1))"
  using index_of_nth [OF assms(1), of i] assms(2)
  by (simp add: handle_event_def length_OFFSETS Let_def)

lemma handle_event_unknown:
  assumes "off \<notin> set (OFFSETS chip)"
  shows "handle_event chip env off w = (Inl (Exn ValueError ''is not in list''), w)"
  using index_of_absent [OF assms] by (simp add: handle_event_def)

lemma hd_sort_key_first:
  assumes "xs \<noteq> []"
  shows "hd (sort_key f xs) = hd (filter (\<lambda>x. \<forall>y\<in>set xs. f x \<le> f y) xs)"
proof -
  obtain y ys where ys: "sort_key f xs = y # ys"
    using assms by (cases "sort_key f xs") (auto dest: arg_cong [where f = length])
  from hd_sort_key_least [OF assms, of f] ys
  have y: "y \<in> set xs" "\<forall>x\<in>set xs. f y \<le> f x" by simp_all
  have "filter (\<lambda>x. \<forall>z\<in>set xs. f x \<le> f z) xs = filter (\<lambda>x. f x = f y) xs"
  proof (rule filter_cong [OF refl])
    fix x assume x: "x \<in> set xs"
    show "(\<forall>z\<in>set xs. f x \<le> f z) = (f x = f y)"
    proof
      assume "\<forall>z\<in>set xs. f x \<le> f z"
      with y x show "f x = f y" by (meson order_antisym)
    next
      assume "f x = f y"
      with y show "\<forall>z\<in>set xs. f x \<le> f z" by simp
    qed
  qed
  also have "\<dots> = filter (\<lambda>x. f x = f y) (sort_key f xs)"
    by (rule sort_key_stable [symmetric])
  also have "\<dots> = y # filter (\<lambda>x. f x = f y) ys" by (simp add: ys)
  finally show ?thesis by (simp add: ys)
qed

lemma filter_newest:
  "filter (newest w) (png_files w) =
     filter (\<lambda>x. \<forall>y\<in>set (png_files w). - mtime (snd x) \<le> - mtime (snd y)) (png_files w)"
  by (rule filter_cong [OF refl]) (simp add: newest_def)

lemma sorted_files_first:
  assumes "png_files w \<noteq> []"
  shows "\<exists>fs. sorted_files w = hd (filter (newest w) (png_files w)) # fs"
proof -
  from assms obtain f fs where f: "sorted_files w = f # fs"
    by (cases "sorted_files w") (auto simp: sorted_files_Nil)
  have "hd (sorted_files w) = hd (filter (newest w) (png_files w))"
    unfolding sorted_files_def filter_newest by (rule hd_sort_key_first [OF assms])
  with f show ?thesis by simp
qed

lemma latest_first:
  assumes "listdir_error env = None" "png_files w \<noteq> []"
  shows "newest w (hd (filter (newest w) (png_files w)))"
    and "get_latest_saved_image env w =
           (Some (path_join IMAGE_DIR (fst (hd (filter (newest w) (png_files w))))), w)"
proof -
  from sorted_files_first [OF assms(2)] obtain fs where
    s: "sorted_files w = hd (filter (newest w) (png_files w)) # fs" by blast
  from sorted_files_hd [OF assms(2)] s
  show "newest w (hd (filter (newest w) (png_files w)))" by auto
  from s assms(1)
  show "get_latest_saved_image env w =
           (Some (path_join IMAGE_DIR (fst (hd (filter (newest w) (png_files w))))), w)"
    by (simp add: get_latest_saved_image_def)
qed

lemma latest_unlistable:
  "listdir_error env = Some e \<Longrightarrow> get_latest_saved_image env w =
     (None, logging ERROR ''Error retrieving saved images: {e}'' [AExn e] w)"
  by (simp add: get_latest_saved_image_def)

lemma fetch_log:
  assumes "fetch_image_url env w0 = (Inr url, w1)" and "\<not> truthy url"
  shows "log w1 = log w0 @
           [case fetch_body env of
              Inr v \<Rightarrow> (WARNING, ''No image URL found in API response.'', [])
            | Inl e \<Rightarrow> (ERROR, ''Error fetching image URL: {e}'', [AExn e])]"
  using assms by (auto simp: fetch_image_url_def split: sum.splits if_splits)

lemma py_get_Inl: "py_get v k d = Inl e \<Longrightarrow> class_of e = AttributeError"
  by (cases v) auto

lemma fetch_parsed:
  assumes "fetch_image_url env w0 = (Inr url, w1)"
  shows "(\<exists>v. fetch_body env = Inr v) = response_parsed env"
proof -
  have n: "class_of e = RequestException" if "fetch_body env = Inl e" for e
    using that assms by (auto simp: fetch_image_url_def split: if_splits)
  show ?thesis
  proof (cases "api_get env")
    case (Inl e)
    then show ?thesis by (simp add: response_parsed_def fetch_body_def)
  next
    case (Inr r)
    show ?thesis
    proof (cases "response_parsed env")
      case False
      with Inr show ?thesis
        by (auto simp: response_parsed_def fetch_body_def raise_for_status_def response_json_def
                 split: option.splits)
    next
      case True
      with Inr obtain data where d: "\<not> (400 \<le> status r \<and> status r < 600)" "json_body r = Some data"
        by (auto simp: response_parsed_def)
      have "\<exists>v. fetch_body env = Inr v"
      proof (cases "fetch_body env")
        case (Inr v) then show ?thesis by simp
      next
        case (Inl e)
        from Inl \<open>api_get env = Inr r\<close> d have "class_of e = AttributeError"
          by (auto simp: fetch_body_def raise_for_status_def response_json_def
                   split: sum.splits dest!: py_get_Inl)
        with n [OF Inl] show ?thesis by simp
      qed
      with True show ?thesis by simp
    qed
  qed
qed

lemma handle_event_index:
  assumes "index_of (OFFSETS chip) off = Inr i"
  shows "handle_event chip env off w =
     (let w1 = logging INFO ''Button press detected on GPIO #{gpio_number} label: {label}''
                 [ANat (BUTTONS ! i), AStr (LABELS ! i)] w
      in if LABELS ! i = ''B''
         then refresh_image env (logging INFO ''Button B pressed: Fetching new image...'' [] w1)
         else (Inr (), w1))"
  using assms by (simp add: handle_event_def Let_def)

lemma process_events_append:
  "process_events chip (xs @ ys) w =
     (case process_events chip xs w of
        (Inl e, w') \<Rightarrow> (Inl e, w')
      | (Inr u, w') \<Rightarrow> process_events chip ys w')"
  by (induction xs arbitrary: w) (auto split: prod.splits sum.splits)

lemma listen_append:
  "listen chip (xs @ ys) w =
     (case listen chip xs w of
        (Inl e, w') \<Rightarrow> (Inl e, w')
      | (Inr u, w') \<Rightarrow> listen chip ys w')"
  by (induction xs arbitrary: w) (auto split: prod.splits sum.splits)

lemma process_events_unknown:
  assumes "off \<notin> set (OFFSETS chip)" "process_events chip pre w0 = (Inr (), w)"
  shows "process_events chip (pre @ (off, env) # evs) w0 = (Inl (Exn ValueError ''is not in list''), w)"
  using assms by (simp add: process_events_append handle_event_unknown)

lemma listener_unknown:
  assumes "off \<notin> set (OFFSETS chip)" "button_listener chip bs w0 = (Inr (), w1)"
    "process_events chip pre w1 = (Inr (), w)"
  shows "button_listener chip (bs @ (pre @ (off, env) # evs) # batches) w0 =
           (Inl (Exn ValueError ''is not in list''), w)"
  using assms(2) process_events_unknown [OF assms(1,3), of env evs]
  by (simp add: button_listener_def listen_append)



lemma grows_only_same: "cache w' = cache w \<Longrightarrow> grows_only S w w'"
  by (simp add: grows_only_def)

lemma grows_only_write:
  "cache w' = write_file name f (cache w) \<Longrightarrow> name \<in> S \<Longrightarrow> grows_only S w w'"
  by (auto simp: grows_only_def write_file_names map_of_write_file)

lemma grows_only_trans:
  "grows_only S w w' \<Longrightarrow> grows_only T w' w'' \<Longrightarrow> grows_only (S \<union> T) w w''"
  unfolding grows_only_def by (metis UnI1 UnI2)

lemma grows_only_mono: "grows_only S w w' \<Longrightarrow> S \<subseteq> T \<Longrightarrow> grows_only T w w'"
  unfolding grows_only_def by blast

lemma download_cache:
  "cache (snd (download_image env u w)) = cache w
   \<or> (\<exists>f. cache (snd (download_image env u w)) = write_file (stamp_name env) f (cache w))"
  by (auto simp: download_image_def download_handlers_def Let_def split: sum.splits option.splits)

lemma refresh_cache:
  "cache (snd (refresh_image env w)) = cache w
   \<or> (\<exists>f. cache (snd (refresh_image env w)) = write_file (stamp_name env) f (cache w))"
proof -
  let ?w0 = "logging INFO ''Refreshing image...'' [] w"
  obtain r w1 where f: "fetch_image_url env ?w0 = (r, w1)" by (cases "fetch_image_url env ?w0")
  then have w1: "cache w1 = cache w" using fetch_keeps(1) [of env ?w0] by simp
  show ?thesis
  proof (cases r)
    case (Inl e)
    with f w1 show ?thesis by (simp add: refresh_image_def)
  next
    case (Inr url)
    obtain ip w2 where o: "obtain_image env url w1 = (ip, w2)" by (cases "obtain_image env url w1")
    have w2: "cache w2 = cache w1 \<or> (\<exists>f. cache w2 = write_file (stamp_name env) f (cache w1))"
      using o download_cache [of env url w1] by (auto simp: obtain_image_def split: if_splits)
    obtain ip' w3 where b: "fallback_image env (ip, w2) = (ip', w3)"
      by (cases "fallback_image env (ip, w2)")
    have w3: "cache w3 = cache w2"
      using b latest_keeps(1) [of env "logging WARNING ''Falling back to last saved image.'' [] w2"]
      by (auto simp: fallback_image_def split: if_splits)
    have "cache (snd (refresh_image env w)) = cache w3"
      using f Inr o b by (simp add: refresh_image_def update_display_keeps)
    with w1 w2 w3 show ?thesis by simp
  qed
qed

lemma download_grows: "grows_only {stamp_name env} w (snd (download_image env u w))"
  using download_cache [of env u w] by (auto intro: grows_only_same grows_only_write)

lemma refresh_grows: "grows_only {stamp_name env} w (snd (refresh_image env w))"
  using refresh_cache [of env w] by (auto intro: grows_only_same grows_only_write)

lemma grows_only_logging: "grows_only S (logging l m a w) w' = grows_only S w w'"
  by (simp add: grows_only_def)

lemma handle_event_grows:
  "grows_only {stamp_name env} w (snd (handle_event chip env off w))"
  by (auto simp: handle_event_def Let_def grows_only_same split: sum.splits
           intro: refresh_grows [of env "logging l m a (logging l' m' a' w)" for l m a l' m' a',
                                 unfolded grows_only_logging])

lemma process_events_grows:
  "grows_only (stamp_name ` snd ` set evs) w (snd (process_events chip evs w))"
proof (induction evs arbitrary: w)
  case Nil
  show ?case by (simp add: grows_only_same)
next
  case (Cons ev evs)
  obtain r w' where h: "handle_event chip (snd ev) (fst ev) w = (r, w')"
    by (cases "handle_event chip (snd ev) (fst ev) w")
  have g: "grows_only {stamp_name (snd ev)} w w'"
    using handle_event_grows [of "snd ev" w chip "fst ev"] h by simp
  show ?case
  proof (cases r)
    case (Inl e)
    with h g show ?thesis by (auto intro: grows_only_mono)
  next
    case (Inr u)
    from grows_only_trans [OF g Cons.IH [of w']] h Inr
    show ?thesis by (auto intro: grows_only_mono)
  qed
qed

lemma listen_grows:
  "grows_only (stamp_name ` snd ` (\<Union>b\<in>set batches. set b)) w (snd (listen chip batches w))"
proof (induction batches arbitrary: w)
  case Nil
  show ?case by (simp add: grows_only_same)
next
  case (Cons b bs)
  obtain r w' where h: "process_events chip b w = (r, w')"
    by (cases "process_events chip b w")
  have g: "grows_only (stamp_name ` snd ` set b) w w'"
    using process_events_grows [of b w chip] h by simp
  show ?case
  proof (cases r)
    case (Inl e)
    with h g show ?thesis by (auto intro: grows_only_mono)
  next
    case (Inr u)
    from grows_only_trans [OF g Cons.IH [of w']] h Inr
    show ?thesis by (simp add: image_Un)
  qed
qed

lemma button_listener_grows:
  "grows_only (stamp_name ` snd ` (\<Union>b\<in>set batches. set b)) w (snd (button_listener chip batches w))"
  using listen_grows [of batches "logging INFO ''Button listener started. Waiting for button presses...'' [] w" chip]
  by (simp add: button_listener_def grows_only_logging)

lemma cycle_grows: "grows_only {stamp_name env} w (snd (auto_refresh_cycle t env w))"
proof -
  let ?w0 = "logging INFO ''Sleeping for {seconds_until_next_hour} seconds until the next top of the hour...''
                    [AInt (seconds_until_next_hour t)] w"
  show ?thesis
  proof (cases "seconds_until_next_hour t < 0")
    case True
    then show ?thesis by (simp add: auto_refresh_cycle_def sleep_def Let_def grows_only_same)
  next
    case False
    let ?w1 = "logging INFO ''Top of the hour reached. Refreshing image ...'' []
                 (?w0\<lparr>slept := slept ?w0 @ [seconds_until_next_hour t]\<rparr>)"
    have c: "cache ?w1 = cache w" by simp
    from False have "auto_refresh_cycle t env w = refresh_image env ?w1"
      by (simp add: auto_refresh_cycle_def sleep_def Let_def)
    with refresh_grows [of env ?w1] c show ?thesis by (simp add: grows_only_def)
  qed
qed

lemma auto_refresh_grows:
  "grows_only (stamp_name ` snd ` set cycles) w (snd (auto_refresh cycles w))"
proof (induction cycles arbitrary: w)
  case Nil
  show ?case by (simp add: grows_only_same)
next
  case (Cons c cs)
  obtain r w' where h: "auto_refresh_cycle (fst c) (snd c) w = (r, w')"
    by (cases "auto_refresh_cycle (fst c) (snd c) w")
  have g: "grows_only {stamp_name (snd c)} w w'"
    using cycle_grows [of "snd c" w "fst c"] h by simp
  show ?case
  proof (cases r)
    case (Inl e)
    with h g show ?thesis by (auto intro: grows_only_mono)
  next
    case (Inr u)
    from grows_only_trans [OF g Cons.IH [of w']] h Inr
    show ?thesis by (auto intro: grows_only_mono)
  qed
qed

section \<open>The functions on the concrete inputs\<close>

lemma stamp_online: "stamp_name env_online = ''20240101_120000.png''"
  by (simp add: stamp_name_def strftime_def pad2_def pad4_def digit_def env_online_def sample_time_def)

lemma fetch_body_online: "fetch_body env_online = Inr (JStr ''http://img'')"
  by (simp add: fetch_body_def env_online_def good_response_def raise_for_status_def
                response_json_def)

lemma fetch_body_offline: "fetch_body env_offline = Inl (Exn RequestException ''ConnectionError'')"
  by (simp add: fetch_body_def env_offline_def env_online_def)

lemma fetch_online:
  "fetch_image_url env_online w =
     (Inr (JStr ''http://img''),
      logging INFO ''Fetched image URL: {image_url}'' [AJson (JStr ''http://img'')] w)"
  by (simp add: fetch_image_url_def fetch_body_online)

lemma fetch_offline:
  "fetch_image_url env_offline w =
     (Inr JNull,
      logging ERROR ''Error fetching image URL: {e}''
        [AExn (Exn RequestException ''ConnectionError'')] w)"
  by (simp add: fetch_image_url_def fetch_body_offline)

lemma download_body_online: "download_body env_online u = Inr (Image 7)"
  by (simp add: download_body_def env_online_def image_response_def raise_for_status_def)

lemma save_mtime_online: "save_mtime env_online = 100" "save_error env_online = None"
  by (simp_all add: env_online_def)

lemma listdir_online: "listdir_error env_online = None" "listdir_error env_offline = None"
  by (simp_all add: env_online_def env_offline_def)

lemma download_online:
  "truthy u \<Longrightarrow> download_image env_online u w =
     (Some ''images/20240101_120000.png'',
      logging INFO ''Saved new image: {image_path}'' [APath ''images/20240101_120000.png'']
        (w\<lparr>cache := write_file ''20240101_120000.png'' \<lparr>mtime = 100, picture = Image 7\<rparr> (cache w)\<rparr>))"
  by (simp add: download_image_def download_body_online stamp_online path_join_def IMAGE_DIR_def
                Let_def save_mtime_online)

lemma png_two: "png_files two_world =
    [(''a.png'', \<lparr>mtime = 10, picture = Image 1\<rparr>), (''b.png'', \<lparr>mtime = 20, picture = Image 2\<rparr>)]"
  by (simp add: png_files_def two_world_def endswith_def)

lemma png_two_rev: "png_files two_world_rev =
    [(''b.png'', \<lparr>mtime = 20, picture = Image 2\<rparr>), (''a.png'', \<lparr>mtime = 10, picture = Image 1\<rparr>)]"
  by (simp add: png_files_def two_world_rev_def endswith_def)

lemma png_tie: "png_files tie_world =
    [(''a.png'', \<lparr>mtime = 20, picture = Image 1\<rparr>), (''b.png'', \<lparr>mtime = 20, picture = Image 2\<rparr>)]"
  "png_files tie_world_rev =
    [(''b.png'', \<lparr>mtime = 20, picture = Image 2\<rparr>), (''a.png'', \<lparr>mtime = 20, picture = Image 1\<rparr>)]"
  by (simp_all add: png_files_def tie_world_def tie_world_rev_def endswith_def)

lemma png_old: "png_files old_world = [(''20240101_120000.png'', \<lparr>mtime = 50, picture = Image 3\<rparr>)]"
  by (simp add: png_files_def old_world_def endswith_def)

lemma newest_two: "newest two_world f \<longleftrightarrow> f = (''b.png'', \<lparr>mtime = 20, picture = Image 2\<rparr>)"
  by (auto simp: newest_def png_two)

lemma filter_newest_two:
  "filter (newest two_world) (png_files two_world) = [(''b.png'', \<lparr>mtime = 20, picture = Image 2\<rparr>)]"
  by (simp add: newest_two png_two)

lemma listdir_unlistable: "listdir_error env_unlistable = Some (Exn OSError ''FileNotFoundError'')"
  by (simp add: env_unlistable_def)

lemma fetch_unlistable:
  "fetch_image_url env_unlistable w =
     (Inr JNull,
      logging ERROR ''Error fetching image URL: {e}''
        [AExn (Exn RequestException ''ConnectionError'')] w)"
  by (simp add: fetch_image_url_def fetch_body_def env_unlistable_def env_offline_def env_online_def)

lemma fetch_no_url:
  "fetch_image_url env_no_url w =
     (Inr JNull, logging WARNING ''No image URL found in API response.'' [] w)"
  by (simp add: fetch_image_url_def fetch_body_def env_no_url_def no_url_response_def
                raise_for_status_def response_json_def)

lemma fetch_not_found:
  "fetch_image_url env_not_found w =
     (Inr JNull,
      logging ERROR ''Error fetching image URL: {e}'' [AExn (Exn RequestException ''HTTPError'')] w)"
  by (simp add: fetch_image_url_def fetch_body_def env_not_found_def missing_response_def
                raise_for_status_def)

lemma parsed_samples:
  "\<not> response_parsed env_offline" "response_parsed env_no_url" "\<not> response_parsed env_not_found"
  by (simp_all add: response_parsed_def env_offline_def env_no_url_def env_not_found_def
                    no_url_response_def missing_response_def)

lemma listdir_no_url: "listdir_error env_no_url = None"
  by (simp add: env_no_url_def env_online_def)

lemma png_empty: "png_files empty_world = []"
  by (simp add: png_files_def empty_world_def)

lemma log_empty: "log empty_world = []" "panel empty_world = []" "cache empty_world = []"
  by (simp_all add: empty_world_def)

lemma OFFSETS_id: "OFFSETS (\<lambda>i. i) = [5, 6, 16, 24]"
  by (simp add: OFFSETS_def BUTTONS_def)



lemma stamp_later: "stamp_name env_later = ''20240101_123456.png''"
  by (simp add: stamp_name_def strftime_def pad2_def pad4_def digit_def env_later_def
                quarter_time_def)

section \<open>The refresh that downloads\<close>

text \<open>
  Claim C1, as the code has it. When \<open>fetch_image_url\<close> returns a truthy URL and
  \<open>download_image\<close> returns a path, \<open>refresh_image\<close> is one call of
  \<open>update_display\<close> on that path, in the world the download has left. The download
  has written exactly one file, named after the clock reading at second resolution:
  every file of another name is as before, the listing gains that one name when the name
  is new, and keeps its names when a file of that name was there already (the file is
  then overwritten).
\<close>

theorem refresh_fresh_image:
  assumes "fetch_image_url env (logging INFO ''Refreshing image...'' [] w) = (Inr url, w1)"
    and "truthy url" and "download_image env url w1 = (Some p, w2)"
  shows "refresh_image env w = update_display env (Some p) default_saturation w2
       \<and> p = path_join IMAGE_DIR (stamp_name env)
       \<and> (\<exists>img. cache w2 = write_file (stamp_name env)
                    \<lparr>mtime = save_mtime env, picture = img\<rparr> (cache w))
       \<and> cache (snd (refresh_image env w)) = cache w2
       \<and> (\<forall>n. n \<noteq> stamp_name env \<longrightarrow> map_of (cache w2) n = map_of (cache w) n)
       \<and> (stamp_name env \<notin> fst ` set (cache w)
            \<longrightarrow> map fst (cache w2) = map fst (cache w) @ [stamp_name env])
       \<and> (stamp_name env \<in> fst ` set (cache w)
            \<longrightarrow> map fst (cache w2) = map fst (cache w))"
proof -
  have r: "refresh_image env w = update_display env (Some p) default_saturation w2"
    by (rule refresh_fresh [OF assms])
  have c1: "cache w1 = cache w"
    using fetch_keeps(1) [of env "logging INFO ''Refreshing image...'' [] w"] assms(1) by simp
  from download_Some(2) [OF assms(3)] c1 obtain img where
    img: "cache w2 = write_file (stamp_name env) \<lparr>mtime = save_mtime env, picture = img\<rparr> (cache w)"
    by auto
  have k: "cache (snd (refresh_image env w)) = cache w2"
    by (simp add: r update_display_keeps)
  show ?thesis
    using r download_Some(1) [OF assms(3)] img k
    by (auto simp: map_of_write_file write_file_names_new write_file_names_old)
qed

theorem refresh_fresh_image_witness:
  "fetch_image_url env_online (logging INFO ''Refreshing image...'' [] empty_world) =
     (Inr (JStr ''http://img''),
      snd (fetch_image_url env_online (logging INFO ''Refreshing image...'' [] empty_world)))
   \<and> truthy (JStr ''http://img'')
   \<and> download_image env_online (JStr ''http://img'')
       (snd (fetch_image_url env_online (logging INFO ''Refreshing image...'' [] empty_world))) =
     (Some ''images/20240101_120000.png'',
      snd (download_image env_online (JStr ''http://img'')
        (snd (fetch_image_url env_online (logging INFO ''Refreshing image...'' [] empty_world)))))
   \<and> map fst (cache (snd (refresh_image env_online empty_world))) = [''20240101_120000.png'']"
proof -
  let ?w0 = "logging INFO ''Refreshing image...'' [] empty_world"
  let ?w1 = "snd (fetch_image_url env_online ?w0)"
  let ?w2 = "snd (download_image env_online (JStr ''http://img'') ?w1)"
  have h1: "fetch_image_url env_online ?w0 = (Inr (JStr ''http://img''), ?w1)"
    by (simp add: fetch_online)
  have h2: "truthy (JStr ''http://img'')" by simp
  have h3: "download_image env_online (JStr ''http://img'') ?w1 =
              (Some ''images/20240101_120000.png'', ?w2)"
    by (simp add: download_online)
  note t = refresh_fresh_image [OF h1 h2 h3]
  have n: "stamp_name env_online \<notin> fst ` set (cache empty_world)"
    by (simp add: empty_world_def)
  from t n have "map fst (cache ?w2) = map fst (cache empty_world) @ [stamp_name env_online]"
    by blast
  moreover from t have "cache (snd (refresh_image env_online empty_world)) = cache ?w2"
    by blast
  ultimately have "map fst (cache (snd (refresh_image env_online empty_world))) =
      [''20240101_120000.png'']"
    by (simp add: stamp_online empty_world_def)
  with h1 h2 h3 show ?thesis by blast
qed

text \<open>
  A second download within the same clock second: the directory holds one file before
  and one file after, so no new file has appeared.
\<close>

theorem refresh_same_second_counterexample:
  "fst (fetch_image_url env_online (logging INFO ''Refreshing image...'' [] old_world)) =
     Inr (JStr ''http://img'')
   \<and> fst (download_image env_online (JStr ''http://img'')
       (snd (fetch_image_url env_online (logging INFO ''Refreshing image...'' [] old_world)))) =
     Some ''images/20240101_120000.png''
   \<and> length (cache old_world) = 1
   \<and> length (cache (snd (refresh_image env_online old_world))) = 1"
proof -
  let ?w0 = "logging INFO ''Refreshing image...'' [] old_world"
  let ?w1 = "snd (fetch_image_url env_online ?w0)"
  let ?w2 = "snd (download_image env_online (JStr ''http://img'') ?w1)"
  have h1: "fetch_image_url env_online ?w0 = (Inr (JStr ''http://img''), ?w1)"
    by (simp add: fetch_online)
  have h3: "download_image env_online (JStr ''http://img'') ?w1 =
              (Some ''images/20240101_120000.png'', ?w2)"
    by (simp add: download_online)
  have r: "refresh_image env_online old_world =
             update_display env_online (Some ''images/20240101_120000.png'') default_saturation ?w2"
    by (rule refresh_fresh [OF h1 _ h3]) simp
  have c: "cache ?w2 = [(''20240101_120000.png'', \<lparr>mtime = 100, picture = Image 7\<rparr>)]"
    by (simp add: download_online fetch_online old_world_def)
  have a: "length (cache (snd (refresh_image env_online old_world))) = 1"
    by (simp add: r update_display_keeps c)
  have b: "length (cache old_world) = 1" by (simp add: old_world_def)
  have f1: "fst (fetch_image_url env_online ?w0) = Inr (JStr ''http://img'')"
    by (simp add: fetch_online)
  have f3: "fst (download_image env_online (JStr ''http://img'') ?w1) =
              Some ''images/20240101_120000.png''"
    by (simp add: download_online)
  from f1 f3 b a show ?thesis by blast
qed

section \<open>The refresh that falls back on a saved image\<close>

text \<open>
  Claim C2, as the code has it. When \<open>fetch_image_url\<close> returns a falsy value (\<open>None\<close>
  included) and the directory holds at least one \<open>.png\<close> file, \<open>refresh_image\<close>
  leaves the directory as it is and calls \<open>update_display\<close> once. When \<open>os.listdir\<close>
  and \<open>os.path.getmtime\<close> succeed, the call is on a \<open>.png\<close> file of the directory
  whose modification time no other one exceeds. When one of them raises,
  \<open>get_latest_saved_image\<close> logs the error and returns \<open>None\<close>, so that
  \<open>update_display\<close> is called with \<open>None\<close> and nothing reaches the panel.
\<close>

theorem refresh_cached_image:
  assumes "fetch_image_url env (logging INFO ''Refreshing image...'' [] w) = (Inr url, w1)"
    and "\<not> truthy url" and "png_files w \<noteq> []"
  shows "(listdir_error env = None \<longrightarrow>
           (\<exists>f. newest w f
              \<and> refresh_image env w =
                  update_display env (Some (path_join IMAGE_DIR (fst f))) default_saturation
                    (logging WARNING ''Falling back to last saved image.'' [] w1)))
       \<and> (\<forall>e. listdir_error env = Some e \<longrightarrow>
             refresh_image env w =
               update_display env None default_saturation
                 (logging ERROR ''Error retrieving saved images: {e}'' [AExn e]
                    (logging WARNING ''Falling back to last saved image.'' [] w1))
             \<and> panel (snd (refresh_image env w)) = panel w)
       \<and> cache w1 = cache w
       \<and> cache (snd (refresh_image env w)) = cache w"
proof -
  let ?w2 = "logging WARNING ''Falling back to last saved image.'' [] w1"
  have c1: "cache w1 = cache w" "panel w1 = panel w"
    using fetch_keeps(1,2) [of env "logging INFO ''Refreshing image...'' [] w"] assms(1) by simp_all
  then have p: "png_files ?w2 \<noteq> []" using assms(3) by (simp add: png_files_def)
  have a: "\<exists>f. newest w f
              \<and> refresh_image env w =
                  update_display env (Some (path_join IMAGE_DIR (fst f))) default_saturation ?w2"
    if le: "listdir_error env = None"
  proof -
    from latest_newest [OF le p] obtain f where
      f: "newest ?w2 f" "get_latest_saved_image env ?w2 = (Some (path_join IMAGE_DIR (fst f)), ?w2)"
      by blast
    have n: "newest w f" using f(1) c1 by (simp add: newest_def png_files_def)
    have r: "refresh_image env w =
               update_display env (Some (path_join IMAGE_DIR (fst f))) default_saturation ?w2"
      using refresh_fallback [OF assms(1,2)] f(2) by simp
    from n r show ?thesis by blast
  qed
  have b: "refresh_image env w =
               update_display env None default_saturation
                 (logging ERROR ''Error retrieving saved images: {e}'' [AExn e] ?w2)
             \<and> panel (snd (refresh_image env w)) = panel w"
    if le: "listdir_error env = Some e" for e
  proof -
    have r: "refresh_image env w =
               update_display env None default_saturation
                 (logging ERROR ''Error retrieving saved images: {e}'' [AExn e] ?w2)"
      using refresh_fallback [OF assms(1,2)] by (simp add: latest_unlistable [OF le])
    have "panel (snd (refresh_image env w)) = panel w"
      by (simp add: r update_display_no_path c1)
    with r show ?thesis by simp
  qed
  have k: "cache (snd (refresh_image env w)) = cache w"
  proof (cases "listdir_error env")
    case None
    from a [OF None] obtain f where "newest w f" and rf: "refresh_image env w =
        update_display env (Some (path_join IMAGE_DIR (fst f))) default_saturation ?w2"
      by (elim exE conjE)
    from rf show ?thesis by (simp add: update_display_keeps c1)
  next
    case (Some e)
    from b [OF Some] show ?thesis by (simp add: update_display_keeps c1)
  qed
  from a b c1(1) k show ?thesis by blast
qed

theorem refresh_cached_image_witness:
  "fetch_image_url env_offline (logging INFO ''Refreshing image...'' [] two_world) =
     (Inr JNull, snd (fetch_image_url env_offline (logging INFO ''Refreshing image...'' [] two_world)))
   \<and> \<not> truthy JNull \<and> listdir_error env_offline = None \<and> png_files two_world \<noteq> []
   \<and> refresh_image env_offline two_world =
       update_display env_offline (Some ''images/b.png'') default_saturation
         (logging WARNING ''Falling back to last saved image.'' []
            (snd (fetch_image_url env_offline (logging INFO ''Refreshing image...'' [] two_world))))
   \<and> cache (snd (refresh_image env_offline two_world)) = cache two_world"
proof -
  let ?w0 = "logging INFO ''Refreshing image...'' [] two_world"
  let ?w1 = "snd (fetch_image_url env_offline ?w0)"
  have h1: "fetch_image_url env_offline ?w0 = (Inr JNull, ?w1)"
    by (simp add: fetch_offline)
  have h2: "\<not> truthy JNull" by simp
  have h3: "listdir_error env_offline = None" by (rule listdir_online)
  have h4: "png_files two_world \<noteq> []" by (simp add: png_two)
  note t = refresh_cached_image [OF h1 h2 h4]
  from t h3 obtain f where f: "newest two_world f"
     "refresh_image env_offline two_world =
        update_display env_offline (Some (path_join IMAGE_DIR (fst f))) default_saturation
          (logging WARNING ''Falling back to last saved image.'' [] ?w1)"
    by blast
  from f(1) have "f = (''b.png'', \<lparr>mtime = 20, picture = Image 2\<rparr>)" by (simp add: newest_two)
  then have "path_join IMAGE_DIR (fst f) = ''images/b.png''"
    by (simp add: path_join_def IMAGE_DIR_def)
  with f(2) have a: "refresh_image env_offline two_world =
       update_display env_offline (Some ''images/b.png'') default_saturation
         (logging WARNING ''Falling back to last saved image.'' [] ?w1)" by simp
  from t have b: "cache (snd (refresh_image env_offline two_world)) = cache two_world" by blast
  from h1 h2 h3 h4 a b show ?thesis by blast
qed

text \<open>
  A directory that holds a \<open>.png\<close> file but cannot be read (\<open>os.listdir\<close> or
  \<open>os.path.getmtime\<close> raise, as for a dangling link): the renderer is given \<open>None\<close>
  and the panel receives no call.
\<close>

theorem unlistable_counterexample:
  "fst (fetch_image_url env_unlistable (logging INFO ''Refreshing image...'' [] old_world)) = Inr JNull
   \<and> png_files old_world = [(''20240101_120000.png'', \<lparr>mtime = 50, picture = Image 3\<rparr>)]
   \<and> refresh_image env_unlistable old_world =
       update_display env_unlistable None default_saturation
         (logging ERROR ''Error retrieving saved images: {e}'' [AExn (Exn OSError ''FileNotFoundError'')]
            (logging WARNING ''Falling back to last saved image.'' []
               (snd (fetch_image_url env_unlistable (logging INFO ''Refreshing image...'' [] old_world)))))
   \<and> panel (snd (refresh_image env_unlistable old_world)) = []"
proof -
  let ?w0 = "logging INFO ''Refreshing image...'' [] old_world"
  let ?w1 = "snd (fetch_image_url env_unlistable ?w0)"
  have h1: "fetch_image_url env_unlistable ?w0 = (Inr JNull, ?w1)"
    by (simp add: fetch_unlistable)
  have f1: "fst (fetch_image_url env_unlistable ?w0) = Inr JNull"
    by (simp add: fetch_unlistable)
  have r: "refresh_image env_unlistable old_world =
       update_display env_unlistable None default_saturation
         (logging ERROR ''Error retrieving saved images: {e}'' [AExn (Exn OSError ''FileNotFoundError'')]
            (logging WARNING ''Falling back to last saved image.'' [] ?w1))"
    using refresh_fallback [OF h1] by (simp add: latest_unlistable [OF listdir_unlistable])
  have p: "panel (snd (refresh_image env_unlistable old_world)) = []"
    by (subst r) (simp add: update_display_no_path fetch_unlistable old_world_def)
  from f1 png_old r p show ?thesis by blast
qed

section \<open>The refresh with nothing to show\<close>

text \<open>
  Claim C3, as the code has it. When \<open>fetch_image_url\<close> returns a falsy value and the
  directory holds no \<open>.png\<close> file (an empty directory in particular),
  \<open>refresh_image\<close> returns without raising, calls nothing on the panel and leaves the
  directory as it is. \<open>fetch_image_url\<close> has logged one entry after "Refreshing
  image...": the warning "No image URL found in API response." when a response arrived,
  passed \<open>raise_for_status\<close> and was decoded (\<open>response_parsed\<close>), and the error
  "Error fetching image URL" otherwise (request failed, status 400 to 599, body not
  JSON). Then \<open>refresh_image\<close> logs the warning "Falling back to last saved image.",
  \<open>get_latest_saved_image\<close> logs an error when the directory cannot be read, and
  \<open>update_display\<close>, called with \<open>None\<close>, logs the warning "No valid image found.
  Skipping update.". The warnings of one refresh are therefore these two, in this order,
  preceded by the first one exactly when the response was parsed: two or three, never one.
\<close>

theorem refresh_nothing_to_show:
  assumes "fetch_image_url env (logging INFO ''Refreshing image...'' [] w) = (Inr url, w1)"
    and "\<not> truthy url" and "png_files w = []"
  shows "fst (refresh_image env w) = Inr ()
       \<and> panel (snd (refresh_image env w)) = panel w
       \<and> cache (snd (refresh_image env w)) = cache w
       \<and> log w1 = log w @ [(INFO, ''Refreshing image...'', []),
            (case fetch_body env of
               Inr v \<Rightarrow> (WARNING, ''No image URL found in API response.'', [])
             | Inl e \<Rightarrow> (ERROR, ''Error fetching image URL: {e}'', [AExn e]))]
       \<and> ((\<exists>v. fetch_body env = Inr v) = response_parsed env)
       \<and> refresh_image env w =
           update_display env None default_saturation
             (snd (get_latest_saved_image env
                (logging WARNING ''Falling back to last saved image.'' [] w1)))
       \<and> get_latest_saved_image env (logging WARNING ''Falling back to last saved image.'' [] w1) =
           (None, case listdir_error env of
                    None \<Rightarrow> logging WARNING ''Falling back to last saved image.'' [] w1
                  | Some e \<Rightarrow> logging ERROR ''Error retrieving saved images: {e}'' [AExn e]
                              (logging WARNING ''Falling back to last saved image.'' [] w1))
       \<and> (\<forall>w'. update_display env None default_saturation w' =
                  (Inr (), logging WARNING ''No valid image found. Skipping update.'' [] w'))
       \<and> log (snd (refresh_image env w)) =
           log w1 @ [(WARNING, ''Falling back to last saved image.'', [])]
             @ (case listdir_error env of None \<Rightarrow> []
                | Some e \<Rightarrow> [(ERROR, ''Error retrieving saved images: {e}'', [AExn e])])
             @ [(WARNING, ''No valid image found. Skipping update.'', [])]
       \<and> filter (\<lambda>e. fst e = WARNING) (log (snd (refresh_image env w))) =
           filter (\<lambda>e. fst e = WARNING) (log w)
             @ (if response_parsed env
                then [(WARNING, ''No image URL found in API response.'', [])] else [])
             @ [(WARNING, ''Falling back to last saved image.'', []),
                (WARNING, ''No valid image found. Skipping update.'', [])]
       \<and> count_level WARNING (snd (refresh_image env w)) =
           count_level WARNING w + (if response_parsed env then 3 else 2)"
proof -
  let ?w0 = "logging INFO ''Refreshing image...'' [] w"
  let ?w2 = "logging WARNING ''Falling back to last saved image.'' [] w1"
  let ?w3 = "snd (get_latest_saved_image env ?w2)"
  have c1: "cache w1 = cache w" "panel w1 = panel w"
    using fetch_keeps(1,2) [of env ?w0] assms(1) by simp_all
  then have p: "png_files ?w2 = []" using assms(3) by (simp add: png_files_def)
  have l1: "log w1 = log w @ [(INFO, ''Refreshing image...'', []),
            (case fetch_body env of
               Inr v \<Rightarrow> (WARNING, ''No image URL found in API response.'', [])
             | Inl e \<Rightarrow> (ERROR, ''Error fetching image URL: {e}'', [AExn e]))]"
    using fetch_log [OF assms(1,2)] by simp
  have fp: "(\<exists>v. fetch_body env = Inr v) = response_parsed env"
    by (rule fetch_parsed [OF assms(1)])
  have g: "get_latest_saved_image env ?w2 =
    (None, case listdir_error env of None \<Rightarrow> ?w2
           | Some e \<Rightarrow> logging ERROR ''Error retrieving saved images: {e}'' [AExn e] ?w2)"
    by (rule latest_empty [OF p])
  have r: "refresh_image env w = update_display env None default_saturation ?w3"
    using refresh_fallback [OF assms(1,2)] g by simp
  have r': "refresh_image env w =
     (Inr (), logging WARNING ''No valid image found. Skipping update.'' [] ?w3)"
    by (simp add: r update_display_no_path)
  have f: "fst (refresh_image env w) = Inr ()" by (simp add: r')
  have pn: "panel (snd (refresh_image env w)) = panel w"
    by (simp add: r' g c1 split: option.splits)
  have ca: "cache (snd (refresh_image env w)) = cache w"
    by (simp add: r' g c1 split: option.splits)
  have l3: "log (snd (refresh_image env w)) =
           log w1 @ [(WARNING, ''Falling back to last saved image.'', [])]
             @ (case listdir_error env of None \<Rightarrow> []
                | Some e \<Rightarrow> [(ERROR, ''Error retrieving saved images: {e}'', [AExn e])])
             @ [(WARNING, ''No valid image found. Skipping update.'', [])]"
    by (simp add: r' g split: option.splits)
  have fl: "filter (\<lambda>e. fst e = WARNING) (log (snd (refresh_image env w))) =
           filter (\<lambda>e. fst e = WARNING) (log w)
             @ (if response_parsed env
                then [(WARNING, ''No image URL found in API response.'', [])] else [])
             @ [(WARNING, ''Falling back to last saved image.'', []),
                (WARNING, ''No valid image found. Skipping update.'', [])]"
    unfolding l3 l1 using fp by (auto split: option.splits sum.splits)
  have cn: "count_level WARNING (snd (refresh_image env w)) =
           count_level WARNING w + (if response_parsed env then 3 else 2)"
    unfolding count_level_def fl by simp
  have ud: "\<forall>w'. update_display env None default_saturation w' =
                  (Inr (), logging WARNING ''No valid image found. Skipping update.'' [] w')"
    by (simp add: update_display_no_path)
  from f pn ca l1 fp r g ud l3 fl cn show ?thesis by (intro conjI)
qed

theorem refresh_nothing_to_show_witness:
  "fetch_image_url env_offline (logging INFO ''Refreshing image...'' [] empty_world) =
     (Inr JNull, snd (fetch_image_url env_offline (logging INFO ''Refreshing image...'' [] empty_world)))
   \<and> fetch_image_url env_no_url (logging INFO ''Refreshing image...'' [] empty_world) =
     (Inr JNull, snd (fetch_image_url env_no_url (logging INFO ''Refreshing image...'' [] empty_world)))
   \<and> fetch_image_url env_not_found (logging INFO ''Refreshing image...'' [] empty_world) =
     (Inr JNull, snd (fetch_image_url env_not_found (logging INFO ''Refreshing image...'' [] empty_world)))
   \<and> \<not> truthy JNull \<and> png_files empty_world = []
   \<and> fst (refresh_image env_offline empty_world) = Inr ()
   \<and> panel (snd (refresh_image env_offline empty_world)) = []
   \<and> filter (\<lambda>e. fst e = WARNING) (log (snd (refresh_image env_offline empty_world))) =
       [(WARNING, ''Falling back to last saved image.'', []),
        (WARNING, ''No valid image found. Skipping update.'', [])]
   \<and> fst (refresh_image env_no_url empty_world) = Inr ()
   \<and> panel (snd (refresh_image env_no_url empty_world)) = []
   \<and> log (snd (refresh_image env_no_url empty_world)) =
       [(INFO, ''Refreshing image...'', []),
        (WARNING, ''No image URL found in API response.'', []),
        (WARNING, ''Falling back to last saved image.'', []),
        (WARNING, ''No valid image found. Skipping update.'', [])]
   \<and> count_level WARNING (snd (refresh_image env_no_url empty_world)) = 3
   \<and> count_level WARNING (snd (refresh_image env_not_found empty_world)) = 2"
proof -
  let ?w0 = "logging INFO ''Refreshing image...'' [] empty_world"
  have h1: "fetch_image_url env_offline ?w0 = (Inr JNull, snd (fetch_image_url env_offline ?w0))"
    by (simp add: fetch_offline)
  have h1': "fetch_image_url env_no_url ?w0 = (Inr JNull, snd (fetch_image_url env_no_url ?w0))"
    by (simp add: fetch_no_url)
  have h1'': "fetch_image_url env_not_found ?w0 = (Inr JNull, snd (fetch_image_url env_not_found ?w0))"
    by (simp add: fetch_not_found)
  have h2: "\<not> truthy JNull" by simp
  have h3: "png_files empty_world = []" by (rule png_empty)
  note t = refresh_nothing_to_show [OF h1 h2 h3]
  note t' = refresh_nothing_to_show [OF h1' h2 h3]
  note t'' = refresh_nothing_to_show [OF h1'' h2 h3]
  have z: "count_level WARNING empty_world = 0" by (simp add: count_level_def log_empty)
  from t have a: "fst (refresh_image env_offline empty_world) = Inr ()" by (rule conjunct1)
  from t have "panel (snd (refresh_image env_offline empty_world)) = panel empty_world"
    by (elim conjE)
  then have b: "panel (snd (refresh_image env_offline empty_world)) = []"
    by (simp add: log_empty)
  from t have "filter (\<lambda>e. fst e = WARNING) (log (snd (refresh_image env_offline empty_world))) =
           filter (\<lambda>e. fst e = WARNING) (log empty_world)
             @ (if response_parsed env_offline
                then [(WARNING, ''No image URL found in API response.'', [])] else [])
             @ [(WARNING, ''Falling back to last saved image.'', []),
                (WARNING, ''No valid image found. Skipping update.'', [])]"
    by (elim conjE)
  then have c: "filter (\<lambda>e. fst e = WARNING) (log (snd (refresh_image env_offline empty_world))) =
       [(WARNING, ''Falling back to last saved image.'', []),
        (WARNING, ''No valid image found. Skipping update.'', [])]"
    by (simp add: parsed_samples log_empty)
  from t' have a': "fst (refresh_image env_no_url empty_world) = Inr ()" by (rule conjunct1)
  from t' have "panel (snd (refresh_image env_no_url empty_world)) = panel empty_world"
    by (elim conjE)
  then have b': "panel (snd (refresh_image env_no_url empty_world)) = []"
    by (simp add: log_empty)
  from t' have "log (snd (refresh_image env_no_url empty_world)) =
           log (snd (fetch_image_url env_no_url ?w0))
             @ [(WARNING, ''Falling back to last saved image.'', [])]
             @ (case listdir_error env_no_url of None \<Rightarrow> []
                | Some e \<Rightarrow> [(ERROR, ''Error retrieving saved images: {e}'', [AExn e])])
             @ [(WARNING, ''No valid image found. Skipping update.'', [])]"
    by (elim conjE)
  then have c': "log (snd (refresh_image env_no_url empty_world)) =
       [(INFO, ''Refreshing image...'', []),
        (WARNING, ''No image URL found in API response.'', []),
        (WARNING, ''Falling back to last saved image.'', []),
        (WARNING, ''No valid image found. Skipping update.'', [])]"
    by (simp add: fetch_no_url log_empty listdir_no_url)
  from t' have "count_level WARNING (snd (refresh_image env_no_url empty_world)) =
           count_level WARNING empty_world + (if response_parsed env_no_url then 3 else 2)"
    by (elim conjE)
  then have d': "count_level WARNING (snd (refresh_image env_no_url empty_world)) = 3"
    by (simp add: parsed_samples z)
  from t'' have "count_level WARNING (snd (refresh_image env_not_found empty_world)) =
           count_level WARNING empty_world + (if response_parsed env_not_found then 3 else 2)"
    by (elim conjE)
  then have d'': "count_level WARNING (snd (refresh_image env_not_found empty_world)) = 2"
    by (simp add: parsed_samples z)
  from h1 h1' h1'' h2 h3 a b c a' b' c' d' d'' show ?thesis by (intro conjI)
qed

text \<open>
  The request fails and the directory is empty: the log holds two warnings.
\<close>

theorem one_warning_counterexample:
  "fst (fetch_image_url env_offline (logging INFO ''Refreshing image...'' [] empty_world)) = Inr JNull
   \<and> cache empty_world = []
   \<and> filter (\<lambda>e. fst e = WARNING) (log (snd (refresh_image env_offline empty_world))) =
       [(WARNING, ''Falling back to last saved image.'', []),
        (WARNING, ''No valid image found. Skipping update.'', [])]"
proof -
  let ?w0 = "logging INFO ''Refreshing image...'' [] empty_world"
  have h1: "fetch_image_url env_offline ?w0 = (Inr JNull, snd (fetch_image_url env_offline ?w0))"
    by (simp add: fetch_offline)
  have p: "png_files (logging WARNING ''Falling back to last saved image.'' []
                        (snd (fetch_image_url env_offline ?w0))) = []"
    by (simp add: png_files_def fetch_offline empty_world_def)
  have r: "refresh_image env_offline empty_world =
     (Inr (), logging WARNING ''No valid image found. Skipping update.'' []
        (logging WARNING ''Falling back to last saved image.'' []
           (snd (fetch_image_url env_offline ?w0))))"
    using refresh_fallback [OF h1] latest_empty [OF p, of env_offline]
    by (simp add: update_display_no_path listdir_online)
  have "filter (\<lambda>e. fst e = WARNING) (log (snd (refresh_image env_offline empty_world))) =
       [(WARNING, ''Falling back to last saved image.'', []),
        (WARNING, ''No valid image found. Skipping update.'', [])]"
    by (subst r) (simp add: fetch_offline empty_world_def)
  moreover have "cache empty_world = []" by (simp add: empty_world_def)
  moreover have "fst (fetch_image_url env_offline ?w0) = Inr JNull" by (simp add: fetch_offline)
  ultimately show ?thesis by blast
qed

section \<open>Responses without an image URL\<close>

text \<open>
  Claim C4, as the code has it. For a response whose status is 400 to 599, or whose body
  is not JSON, or whose body is a JSON object without the key \<open>images\<close>, or with an
  object at \<open>images\<close> that has no key \<open>small\<close> (or \<open>null\<close> there),
  \<open>fetch_image_url\<close> returns \<open>None\<close> and raises nothing.
\<close>

theorem fetch_no_reference:
  assumes "api_get env = Inr r"
    and "(400 \<le> status r \<and> status r < 600) \<or> json_body r = None
         \<or> (\<exists>kvs. json_body r = Some (JObj kvs)
               \<and> (map_of kvs ''images'' = None
                    \<or> (\<exists>ivs. map_of kvs ''images'' = Some (JObj ivs)
                          \<and> (map_of ivs ''small'' = None \<or> map_of ivs ''small'' = Some JNull))))"
  shows "fst (fetch_image_url env w) = Inr JNull"
proof -
  have "fetch_body env = Inr JNull \<or> (\<exists>e. fetch_body env = Inl e \<and> class_of e = RequestException)"
    using assms
    by (auto simp: fetch_body_def raise_for_status_def response_json_def)
  then show ?thesis
    by (auto simp: fetch_image_url_def)
qed

theorem fetch_no_reference_witness:
  "api_get env_not_found = Inr missing_response
   \<and> 400 \<le> status missing_response \<and> status missing_response < 600
   \<and> fst (fetch_image_url env_not_found empty_world) = Inr JNull
   \<and> api_get (env_online\<lparr>api_get := Inr malformed_response\<rparr>) = Inr malformed_response
   \<and> status malformed_response = 200 \<and> json_body malformed_response = None
   \<and> fst (fetch_image_url (env_online\<lparr>api_get := Inr malformed_response\<rparr>) empty_world) = Inr JNull
   \<and> api_get env_no_url = Inr no_url_response
   \<and> json_body no_url_response = Some (JObj [(''images'', JObj [(''large'', JStr ''http://big'')])])
   \<and> fst (fetch_image_url env_no_url empty_world) = Inr JNull"
proof -
  let ?D = "\<lambda>r. (400 \<le> status r \<and> status r < 600) \<or> json_body r = None
         \<or> (\<exists>kvs. json_body r = Some (JObj kvs)
               \<and> (map_of kvs ''images'' = None
                    \<or> (\<exists>ivs. map_of kvs ''images'' = Some (JObj ivs)
                          \<and> (map_of ivs ''small'' = None \<or> map_of ivs ''small'' = Some JNull))))"
  have a1: "api_get env_not_found = Inr missing_response" by (simp add: env_not_found_def)
  have b1: "400 \<le> status missing_response \<and> status missing_response < 600"
    by (simp add: missing_response_def)
  then have c1: "?D missing_response" by (rule disjI1)
  have a2: "api_get (env_online\<lparr>api_get := Inr malformed_response\<rparr>) = Inr malformed_response"
    by simp
  have b2: "status malformed_response = 200" "json_body malformed_response = None"
    by (simp_all add: malformed_response_def)
  from b2(2) have c2: "?D malformed_response" by simp
  have a3: "api_get env_no_url = Inr no_url_response" by (simp add: env_no_url_def)
  have b3: "json_body no_url_response =
      Some (JObj [(''images'', JObj [(''large'', JStr ''http://big'')])])"
    by (simp add: no_url_response_def)
  then have c3: "?D no_url_response" by simp
  note t1 = fetch_no_reference [OF a1 c1, of empty_world]
  note t2 = fetch_no_reference [OF a2 c2, of empty_world]
  note t3 = fetch_no_reference [OF a3 c3, of empty_world]
  from a1 b1 t1 a2 b2 t2 a3 b3 t3 show ?thesis by (intro conjI) simp_all
qed

text \<open>
  \<open>raise_for_status\<close> raises for the status codes 400 to 599 only: a response of status
  300 whose body holds the URL is no failure, and the URL is returned.
\<close>

theorem fetch_counterexample:
  "status redirect_response = 300
   \<and> fst (fetch_image_url (env_online\<lparr>api_get := Inr redirect_response\<rparr>) empty_world)
       = Inr (JStr ''http://img'')"
  by (simp add: fetch_image_url_def fetch_body_def raise_for_status_def response_json_def
                redirect_response_def)

text \<open>
  When the value at \<open>images\<close> is not an object, \<open>.get\<close> raises \<open>AttributeError\<close>,
  which the handler \<open>except requests.RequestException\<close> does not catch: the exception
  reaches the caller.
\<close>

lemma fetch_not_an_object_raises:
  "json_body broken_response = Some (JObj [(''images'', JStr ''none'')])
   \<and> fetch_image_url (env_online\<lparr>api_get := Inr broken_response\<rparr>) empty_world
       = (Inl (Exn AttributeError ''object has no attribute 'get' ''), empty_world)"
  by (simp add: fetch_image_url_def fetch_body_def raise_for_status_def response_json_def
                broken_response_def)

section \<open>Rendering on a panel without saturation\<close>

text \<open>
  Claim C5, as the code behaves. When \<open>set_image\<close> rejects the keyword \<open>saturation\<close>
  with a \<open>TypeError\<close>, \<open>update_display\<close> calls \<open>set_image\<close> once more without the
  keyword, and then \<open>show\<close> when that call succeeds. \<open>set_border\<close> is not called on
  this path: the call stands inside the \<open>try\<close> block, after the \<open>set_image\<close> that
  raised. Whatever is raised, \<open>update_display\<close> returns normally, and an exception of
  the outer \<open>try\<close> is logged at level ERROR.
\<close>

theorem render_fallback:
  assumes "p \<noteq> []" and "image_open env p = Inr img"
    and "resize env img (resolution env) = Inr resized"
    and "set_image_sat env = Some e" and "class_of e = TypeError"
  shows "fst (update_display env (Some p) s w) = Inr ()
       \<and> panel (snd (update_display env (Some p) s w)) =
           panel w @ [SetImage resized (Some s), SetImage resized None]
             @ (case set_image_plain env of None \<Rightarrow> [Show] | Some e' \<Rightarrow> [])
       \<and> SetBorder \<notin> set (drop (length (panel w)) (panel (snd (update_display env (Some p) s w))))
       \<and> (\<forall>ip w'. fst (update_display env ip s w') = Inr ())
       \<and> (\<forall>q e' w' w''. q \<noteq> [] \<and> display_body env q s w' = (Inl e', w'') \<longrightarrow>
             update_display env (Some q) s w' =
               (Inr (), logging ERROR ''Error displaying image: {e}'' [AExn e'] w''))"
proof -
  have a: "fst (update_display env (Some p) s w) = Inr ()" by (rule update_display_returns)
  have b: "panel (snd (update_display env (Some p) s w)) =
           panel w @ [SetImage resized (Some s), SetImage resized None]
             @ (case set_image_plain env of None \<Rightarrow> [Show] | Some e' \<Rightarrow> [])"
    using assms
    by (simp add: update_display_def display_body_def set_image_block_def retry_set_image_def
                  Let_def split: option.splits)
  have c: "SetBorder \<notin> set (drop (length (panel w)) (panel (snd (update_display env (Some p) s w))))"
    unfolding b by (simp split: option.splits)
  have d: "\<forall>ip w'. fst (update_display env ip s w') = Inr ()"
    by (simp add: update_display_returns)
  have f: "\<forall>q e' w' w''. q \<noteq> [] \<and> display_body env q s w' = (Inl e', w'') \<longrightarrow>
             update_display env (Some q) s w' =
               (Inr (), logging ERROR ''Error displaying image: {e}'' [AExn e'] w'')"
    by (simp add: update_display_def)
  from a b c d f show ?thesis by (intro conjI)
qed

theorem render_fallback_witness:
  "''images/20240101_120000.png'' \<noteq> []
   \<and> image_open env_no_saturation ''images/20240101_120000.png'' = Inr (Image 7)
   \<and> resize env_no_saturation (Image 7) (resolution env_no_saturation) = Inr (Image 7)
   \<and> set_image_sat env_no_saturation = Some (Exn TypeError ''unexpected keyword argument saturation'')
   \<and> class_of (Exn TypeError ''unexpected keyword argument saturation'') = TypeError
   \<and> panel (snd (update_display env_no_saturation (Some ''images/20240101_120000.png'')
        default_saturation empty_world)) =
       [SetImage (Image 7) (Some (4 / 5)), SetImage (Image 7) None, Show]"
proof -
  have h1: "''images/20240101_120000.png'' \<noteq> []" by simp
  have h2: "image_open env_no_saturation ''images/20240101_120000.png'' = Inr (Image 7)"
    by (simp add: env_no_saturation_def env_online_def)
  have h3: "resize env_no_saturation (Image 7) (resolution env_no_saturation) = Inr (Image 7)"
    by (simp add: env_no_saturation_def env_online_def)
  have h4: "set_image_sat env_no_saturation =
      Some (Exn TypeError ''unexpected keyword argument saturation'')"
    by (simp add: env_no_saturation_def)
  have h5: "class_of (Exn TypeError ''unexpected keyword argument saturation'') = TypeError"
    by simp
  note t = render_fallback [OF h1 h2 h3 h4 h5, of default_saturation empty_world]
  from t have "panel (snd (update_display env_no_saturation (Some ''images/20240101_120000.png'')
        default_saturation empty_world)) =
           panel empty_world @ [SetImage (Image 7) (Some default_saturation), SetImage (Image 7) None]
             @ (case set_image_plain env_no_saturation of None \<Rightarrow> [Show] | Some e' \<Rightarrow> [])"
    by (elim conjE)
  then have "panel (snd (update_display env_no_saturation (Some ''images/20240101_120000.png'')
        default_saturation empty_world)) =
       [SetImage (Image 7) (Some (4 / 5)), SetImage (Image 7) None, Show]"
    by (simp add: log_empty default_saturation_def env_no_saturation_def env_online_def)
  with h1 h2 h3 h4 h5 show ?thesis by (intro conjI)
qed

section \<open>The latest saved image\<close>

text \<open>
  Claim C6, as the code has it. On an empty directory, and on one without \<open>.png\<close>
  files, \<open>get_latest_saved_image\<close> returns \<open>None\<close>. When \<open>os.listdir\<close> and
  \<open>os.path.getmtime\<close> succeed and there are \<open>.png\<close> files, it returns the first
  file of the listing among the \<open>.png\<close> files whose modification time no other one
  exceeds; when exactly one file has the greatest modification time, the result is the same
  for every order of the listing. When reading the directory raises, the error is logged
  and \<open>None\<close> is returned.
\<close>

theorem latest_is_newest:
  "(cache w = [] \<longrightarrow> fst (get_latest_saved_image env w) = None)
   \<and> (png_files w = [] \<longrightarrow> fst (get_latest_saved_image env w) = None)
   \<and> (listdir_error env = None \<and> png_files w \<noteq> [] \<longrightarrow>
        newest w (hd (filter (newest w) (png_files w)))
        \<and> get_latest_saved_image env w =
            (Some (path_join IMAGE_DIR (fst (hd (filter (newest w) (png_files w))))), w))
   \<and> (set (cache w') = set (cache w) \<and> (\<forall>f g. newest w f \<and> newest w g \<longrightarrow> f = g) \<longrightarrow>
        fst (get_latest_saved_image env w') = fst (get_latest_saved_image env w))
   \<and> (\<forall>e. listdir_error env = Some e \<longrightarrow>
        get_latest_saved_image env w =
          (None, logging ERROR ''Error retrieving saved images: {e}'' [AExn e] w))"
proof (intro conjI impI allI)
  assume "cache w = []"
  then have "png_files w = []" by (simp add: png_files_def)
  then show "fst (get_latest_saved_image env w) = None" by (simp add: latest_empty)
next
  assume "png_files w = []"
  then show "fst (get_latest_saved_image env w) = None" by (simp add: latest_empty)
next
  assume a: "listdir_error env = None \<and> png_files w \<noteq> []"
  then have le: "listdir_error env = None" and ne: "png_files w \<noteq> []" by simp_all
  show "newest w (hd (filter (newest w) (png_files w)))" by (rule latest_first(1) [OF le ne])
  show "get_latest_saved_image env w =
            (Some (path_join IMAGE_DIR (fst (hd (filter (newest w) (png_files w))))), w)"
    by (rule latest_first(2) [OF le ne])
next
  assume a: "set (cache w') = set (cache w) \<and> (\<forall>f g. newest w f \<and> newest w g \<longrightarrow> f = g)"
  from a have sc: "set (cache w') = set (cache w)" by simp
  from a have uniq: "\<And>f g. newest w f \<Longrightarrow> newest w g \<Longrightarrow> f = g" by blast
  from sc have s: "set (png_files w') = set (png_files w)" by (simp add: png_files_def)
  then have n: "newest w' f = newest w f" for f by (simp add: newest_def)
  show "fst (get_latest_saved_image env w') = fst (get_latest_saved_image env w)"
  proof (cases "listdir_error env")
    case (Some e)
    then show ?thesis by (simp add: latest_unlistable)
  next
    case le: None
    show ?thesis
    proof (cases "png_files w = []")
      case True
      with s have "png_files w' = []" by simp
      with True show ?thesis by (simp add: latest_empty)
    next
      case False
      with s have ne: "png_files w' \<noteq> []" by auto
      from latest_newest [OF le ne] obtain g where
        g: "newest w' g" "get_latest_saved_image env w' = (Some (path_join IMAGE_DIR (fst g)), w')"
        by blast
      from latest_newest [OF le False] obtain f where
        f: "newest w f" "get_latest_saved_image env w = (Some (path_join IMAGE_DIR (fst f)), w)"
        by blast
      from g(1) n have "newest w g" by simp
      with f(1) have "f = g" by (rule uniq)
      with f(2) g(2) show ?thesis by simp
    qed
  qed
next
  fix e assume "listdir_error env = Some e"
  then show "get_latest_saved_image env w =
          (None, logging ERROR ''Error retrieving saved images: {e}'' [AExn e] w)"
    by (rule latest_unlistable)
qed

theorem latest_is_newest_witness:
  "cache empty_world = [] \<and> fst (get_latest_saved_image env_online empty_world) = None
   \<and> listdir_error env_online = None \<and> png_files two_world \<noteq> []
   \<and> set (cache two_world_rev) = set (cache two_world)
   \<and> filter (newest two_world) (png_files two_world) =
       [(''b.png'', \<lparr>mtime = 20, picture = Image 2\<rparr>)]
   \<and> get_latest_saved_image env_online two_world = (Some ''images/b.png'', two_world)
   \<and> fst (get_latest_saved_image env_online two_world_rev) = Some ''images/b.png''
   \<and> listdir_error env_unlistable = Some (Exn OSError ''FileNotFoundError'')
   \<and> fst (get_latest_saved_image env_unlistable two_world) = None"
proof -
  have e: "cache empty_world = []" by (simp add: empty_world_def)
  have l: "listdir_error env_online = None" by (rule listdir_online)
  have p: "png_files two_world \<noteq> []" by (simp add: png_two)
  have s: "set (cache two_world_rev) = set (cache two_world)"
    by (auto simp: two_world_def two_world_rev_def)
  have u: "\<forall>f g. newest two_world f \<and> newest two_world g \<longrightarrow> f = g"
    by (simp add: newest_two)
  note t1 = latest_is_newest [of empty_world env_online empty_world]
  note t2 = latest_is_newest [of two_world env_online two_world_rev]
  note t3 = latest_is_newest [of two_world env_unlistable two_world]
  from t1 e have a: "fst (get_latest_saved_image env_online empty_world) = None" by blast
  from t2 l p have "get_latest_saved_image env_online two_world =
     (Some (path_join IMAGE_DIR (fst (hd (filter (newest two_world) (png_files two_world))))), two_world)"
    by blast
  then have b: "get_latest_saved_image env_online two_world = (Some ''images/b.png'', two_world)"
    by (simp add: filter_newest_two path_join_def IMAGE_DIR_def)
  from t2 s u have "fst (get_latest_saved_image env_online two_world_rev) =
      fst (get_latest_saved_image env_online two_world)" by blast
  with b have c: "fst (get_latest_saved_image env_online two_world_rev) = Some ''images/b.png''"
    by simp
  from t3 listdir_unlistable have "get_latest_saved_image env_unlistable two_world =
          (None, logging ERROR ''Error retrieving saved images: {e}''
                   [AExn (Exn OSError ''FileNotFoundError'')] two_world)" by blast
  then have d: "fst (get_latest_saved_image env_unlistable two_world) = None" by simp
  from e a l p s filter_newest_two b c listdir_unlistable d show ?thesis by (intro conjI)
qed

text \<open>
  Two directories on which the claim fails as worded: one that holds a \<open>.png\<close> file
  but cannot be read, where \<open>None\<close> is returned; and one whose two files share the
  greatest modification time, where the result follows the order of the listing.
\<close>

theorem latest_counterexample:
  "png_files old_world = [(''20240101_120000.png'', \<lparr>mtime = 50, picture = Image 3\<rparr>)]
   \<and> fst (get_latest_saved_image env_unlistable old_world) = None
   \<and> set (cache tie_world_rev) = set (cache tie_world)
   \<and> fst (get_latest_saved_image env_online tie_world) = Some ''images/a.png''
   \<and> fst (get_latest_saved_image env_online tie_world_rev) = Some ''images/b.png''"
proof -
  have a: "fst (get_latest_saved_image env_unlistable old_world) = None"
    by (simp add: latest_unlistable [OF listdir_unlistable])
  have s: "set (cache tie_world_rev) = set (cache tie_world)"
    by (auto simp: tie_world_def tie_world_rev_def)
  have b: "fst (get_latest_saved_image env_online tie_world) = Some ''images/a.png''"
    by (simp add: get_latest_saved_image_def listdir_online sorted_files_def png_tie
                  path_join_def IMAGE_DIR_def)
  have c: "fst (get_latest_saved_image env_online tie_world_rev) = Some ''images/b.png''"
    by (simp add: get_latest_saved_image_def listdir_online sorted_files_def png_tie
                  path_join_def IMAGE_DIR_def)
  from png_old a s b c show ?thesis by (intro conjI)
qed

section \<open>The scheduler\<close>



section \<open>Buttons B and C\<close>



section \<open>What happens to the files of the directory\<close>

text \<open>
  Claim C9, as the code has it. \<open>fetch_image_url\<close>, \<open>get_latest_saved_image\<close> and
  \<open>update_display\<close> leave the directory as it is. \<open>download_image\<close>, and
  \<open>refresh_image\<close> through it, leave it as it is or write one file, named after the
  clock reading at second resolution: a new file when the name is free, the replacement
  of the file of that name otherwise (also when \<open>image.save\<close> has raised after opening
  the file). So, over a refresh, the listener and the
  scheduler, no file name is ever lost, and a file whose name is not one of the time
  stamps written keeps its record.
\<close>

theorem cache_grows_only:
  "cache (snd (fetch_image_url env w)) = cache w
   \<and> cache (snd (get_latest_saved_image env w)) = cache w
   \<and> cache (snd (update_display env p s w)) = cache w
   \<and> (cache (snd (download_image env u w)) = cache w
        \<or> (\<exists>f. cache (snd (download_image env u w)) = write_file (stamp_name env) f (cache w)))
   \<and> (cache (snd (refresh_image env w)) = cache w
        \<or> (\<exists>f. cache (snd (refresh_image env w)) = write_file (stamp_name env) f (cache w)))
   \<and> grows_only {stamp_name env} w (snd (download_image env u w))
   \<and> grows_only {stamp_name env} w (snd (refresh_image env w))
   \<and> grows_only (stamp_name ` snd ` (\<Union>b\<in>set batches. set b)) w
        (snd (button_listener chip batches w))
   \<and> grows_only (stamp_name ` snd ` set cycles) w (snd (auto_refresh cycles w))"
  by (intro conjI fetch_keeps(1) latest_keeps(1) update_display_keeps(1) download_cache
            refresh_cache download_grows refresh_grows button_listener_grows auto_refresh_grows)

theorem cache_grows_only_witness:
  "''20240101_120000.png'' \<in> fst ` set (cache old_world)
   \<and> ''20240101_120000.png'' \<notin> {stamp_name env_later}
   \<and> ''20240101_120000.png'' \<in> fst ` set (cache (snd (refresh_image env_later old_world)))
   \<and> map_of (cache (snd (refresh_image env_later old_world))) ''20240101_120000.png''
       = Some \<lparr>mtime = 50, picture = Image 3\<rparr>
   \<and> map_of (cache (snd (button_listener (\<lambda>i. i) [[(6::nat, env_later)]] old_world)))
       ''20240101_120000.png'' = Some \<lparr>mtime = 50, picture = Image 3\<rparr>"
proof -
  have m: "''20240101_120000.png'' \<in> fst ` set (cache old_world)" by (simp add: old_world_def)
  have n: "''20240101_120000.png'' \<notin> {stamp_name env_later}" by (simp add: stamp_later)
  have o: "map_of (cache old_world) ''20240101_120000.png'' = Some \<lparr>mtime = 50, picture = Image 3\<rparr>"
    by (simp add: old_world_def)
  note t = cache_grows_only [of env_later old_world None 0 JNull "[[(6::nat, env_later)]]" "\<lambda>i. i" "[]"]
  from t have g: "grows_only {stamp_name env_later} old_world (snd (refresh_image env_later old_world))"
    by (elim conjE)
  from g m n have a: "''20240101_120000.png'' \<in> fst ` set (cache (snd (refresh_image env_later old_world)))"
    unfolding grows_only_def by blast
  from g m n have "map_of (cache (snd (refresh_image env_later old_world))) ''20240101_120000.png''
       = map_of (cache old_world) ''20240101_120000.png''"
    unfolding grows_only_def by blast
  with o have b: "map_of (cache (snd (refresh_image env_later old_world))) ''20240101_120000.png''
       = Some \<lparr>mtime = 50, picture = Image 3\<rparr>" by simp
  from t have g': "grows_only (stamp_name ` snd ` (\<Union>b\<in>set [[(6::nat, env_later)]]. set b)) old_world
        (snd (button_listener (\<lambda>i. i) [[(6::nat, env_later)]] old_world))"
    by (elim conjE)
  have n': "''20240101_120000.png'' \<notin> stamp_name ` snd ` (\<Union>b\<in>set [[(6::nat, env_later)]]. set b)"
    by (simp add: stamp_later)
  from g' m n' have "map_of (cache (snd (button_listener (\<lambda>i. i) [[(6::nat, env_later)]] old_world)))
       ''20240101_120000.png'' = map_of (cache old_world) ''20240101_120000.png''"
    unfolding grows_only_def by blast
  with o have c: "map_of (cache (snd (button_listener (\<lambda>i. i) [[(6::nat, env_later)]] old_world)))
       ''20240101_120000.png'' = Some \<lparr>mtime = 50, picture = Image 3\<rparr>" by simp
  from m n a b c show ?thesis by (intro conjI)
qed

text \<open>
  A download within the clock second of a file already saved replaces that file: its
  modification time and its picture change.
\<close>

theorem overwrite_counterexample:
  "map_of (cache old_world) ''20240101_120000.png'' = Some \<lparr>mtime = 50, picture = Image 3\<rparr>
   \<and> fst (download_image env_online (JStr ''http://img'') old_world)
       = Some ''images/20240101_120000.png''
   \<and> cache (snd (download_image env_online (JStr ''http://img'') old_world))
       = [(''20240101_120000.png'', \<lparr>mtime = 100, picture = Image 7\<rparr>)]"
  by (simp add: download_online old_world_def)

section \<open>Line offsets the listener does not know\<close>

text \<open>
  Claim C10. For a line offset that is one of the four of \<open>OFFSETS\<close>, \<open>OFFSETS.index\<close>
  returns the first index at which it stands, and the event is logged with the GPIO
  number and the label of that index. For any other offset \<open>OFFSETS.index\<close> raises
  \<open>ValueError\<close>; nothing in \<open>button_listener\<close> catches it, so the loop ends there,
  whatever events and batches were still to come.
\<close>

theorem offset_lookup:
  "(off \<in> set (OFFSETS chip) \<longrightarrow>
      (\<exists>i<4. index_of (OFFSETS chip) off = Inr i \<and> OFFSETS chip ! i = off
              \<and> (\<forall>j<i. OFFSETS chip ! j \<noteq> off)
              \<and> handle_event chip env off w =
                  (let w1 = logging INFO ''Button press detected on GPIO #{gpio_number} label: {label}''
                              [ANat (BUTTONS ! i), AStr (LABELS ! i)] w
                   in if LABELS ! i = ''B''
                      then refresh_image env
                             (logging INFO ''Button B pressed: Fetching new image...'' [] w1)
                      else (Inr (), w1))))
   \<and> (distinct (OFFSETS chip) \<longrightarrow> (\<forall>i<4. index_of (OFFSETS chip) (OFFSETS chip ! i) = Inr i))
   \<and> (off \<notin> set (OFFSETS chip) \<longrightarrow>
        index_of (OFFSETS chip) off = Inl (Exn ValueError ''is not in list'')
        \<and> handle_event chip env off w = (Inl (Exn ValueError ''is not in list''), w)
        \<and> (\<forall>pre w0. process_events chip pre w0 = (Inr (), w) \<longrightarrow>
              process_events chip (pre @ (off, env) # evs) w0
                = (Inl (Exn ValueError ''is not in list''), w))
        \<and> (\<forall>bs pre w0 w1. button_listener chip bs w0 = (Inr (), w1)
                \<and> process_events chip pre w1 = (Inr (), w) \<longrightarrow>
              button_listener chip (bs @ (pre @ (off, env) # evs) # batches) w0
                = (Inl (Exn ValueError ''is not in list''), w)))"
proof (intro conjI impI allI)
  assume "off \<in> set (OFFSETS chip)"
  from index_of_mem [OF this] obtain i where
    i: "index_of (OFFSETS chip) off = Inr i" "i < length (OFFSETS chip)"
       "OFFSETS chip ! i = off" "\<forall>j<i. OFFSETS chip ! j \<noteq> off"
    by blast
  from i(2) have "i < 4" by (simp add: length_OFFSETS)
  with i(1,3,4) handle_event_index [OF i(1), of env w]
  show "\<exists>i<4. index_of (OFFSETS chip) off = Inr i \<and> OFFSETS chip ! i = off
              \<and> (\<forall>j<i. OFFSETS chip ! j \<noteq> off)
              \<and> handle_event chip env off w =
                  (let w1 = logging INFO ''Button press detected on GPIO #{gpio_number} label: {label}''
                              [ANat (BUTTONS ! i), AStr (LABELS ! i)] w
                   in if LABELS ! i = ''B''
                      then refresh_image env
                             (logging INFO ''Button B pressed: Fetching new image...'' [] w1)
                      else (Inr (), w1))"
    by (intro exI [of _ i] conjI)
next
  fix i :: nat
  assume "distinct (OFFSETS chip)" "i < 4"
  then show "index_of (OFFSETS chip) (OFFSETS chip ! i) = Inr i"
    by (simp add: index_of_nth length_OFFSETS)
next
  assume a: "off \<notin> set (OFFSETS chip)"
  show "index_of (OFFSETS chip) off = Inl (Exn ValueError ''is not in list'')"
    by (rule index_of_absent [OF a])
  show "handle_event chip env off w = (Inl (Exn ValueError ''is not in list''), w)"
    by (rule handle_event_unknown [OF a])
next
  fix pre w0
  assume a: "off \<notin> set (OFFSETS chip)" and p: "process_events chip pre w0 = (Inr (), w)"
  show "process_events chip (pre @ (off, env) # evs) w0 = (Inl (Exn ValueError ''is not in list''), w)"
    by (rule process_events_unknown [OF a p])
next
  fix bs pre w0 w1
  assume a: "off \<notin> set (OFFSETS chip)"
    and p: "button_listener chip bs w0 = (Inr (), w1) \<and> process_events chip pre w1 = (Inr (), w)"
  from p have p1: "button_listener chip bs w0 = (Inr (), w1)"
    and p2: "process_events chip pre w1 = (Inr (), w)" by simp_all
  show "button_listener chip (bs @ (pre @ (off, env) # evs) # batches) w0
                = (Inl (Exn ValueError ''is not in list''), w)"
    by (rule listener_unknown [OF a p1 p2])
qed

theorem offset_lookup_witness:
  "24 \<in> set (OFFSETS (\<lambda>i. i)) \<and> distinct (OFFSETS (\<lambda>i. i)) \<and> 7 \<notin> set (OFFSETS (\<lambda>i. i))
   \<and> index_of (OFFSETS (\<lambda>i. i)) 24 = Inr 3
   \<and> handle_event (\<lambda>i. i) env_online 24 empty_world =
       (Inr (), logging INFO ''Button press detected on GPIO #{gpio_number} label: {label}''
                  [ANat 24, AStr ''D''] empty_world)
   \<and> handle_event (\<lambda>i. i) env_online 7 empty_world
       = (Inl (Exn ValueError ''is not in list''), empty_world)
   \<and> button_listener (\<lambda>i. i) [[(16, env_online), (7, env_online), (6, env_online)], [(6, env_online)]]
       empty_world =
       (Inl (Exn ValueError ''is not in list''),
        logging INFO ''Button press detected on GPIO #{gpio_number} label: {label}''
          [ANat 16, AStr ''C'']
          (logging INFO ''Button listener started. Waiting for button presses...'' [] empty_world))"
proof -
  let ?c = "\<lambda>i::nat. i"
  let ?w1 = "logging INFO ''Button listener started. Waiting for button presses...'' [] empty_world"
  let ?w2 = "logging INFO ''Button press detected on GPIO #{gpio_number} label: {label}''
          [ANat 16, AStr ''C''] ?w1"
  have m: "24 \<in> set (OFFSETS ?c)" by (simp add: OFFSETS_id)
  have d: "distinct (OFFSETS ?c)" by (simp add: OFFSETS_id)
  have n: "7 \<notin> set (OFFSETS ?c)" by (simp add: OFFSETS_id)
  note t = offset_lookup [of 24 ?c env_online empty_world "[]" "[]"]
  note t' = offset_lookup [of 7 ?c env_online ?w2 "[(6, env_online)]" "[[(6, env_online)]]"]
  note t'' = offset_lookup [of 7 ?c env_online empty_world "[]" "[]"]
  from t d have "\<forall>i<4. index_of (OFFSETS ?c) (OFFSETS ?c ! i) = Inr i" by blast
  then have "index_of (OFFSETS ?c) (OFFSETS ?c ! 3) = Inr 3" by simp
  then have a: "index_of (OFFSETS ?c) 24 = Inr 3" by (simp add: OFFSETS_nth)
  from t m obtain i where i: "index_of (OFFSETS ?c) 24 = Inr i"
    "handle_event ?c env_online 24 empty_world =
                  (let w1 = logging INFO ''Button press detected on GPIO #{gpio_number} label: {label}''
                              [ANat (BUTTONS ! i), AStr (LABELS ! i)] empty_world
                   in if LABELS ! i = ''B''
                      then refresh_image env_online
                             (logging INFO ''Button B pressed: Fetching new image...'' [] w1)
                      else (Inr (), w1))"
    by blast
  from i(1) a have "i = 3" by simp
  with i(2) have b: "handle_event ?c env_online 24 empty_world =
       (Inr (), logging INFO ''Button press detected on GPIO #{gpio_number} label: {label}''
                  [ANat 24, AStr ''D''] empty_world)"
    by (simp add: BUTTONS_def LABELS_def)
  from t'' n have c: "handle_event ?c env_online 7 empty_world
       = (Inl (Exn ValueError ''is not in list''), empty_world)" by blast
  have l0: "button_listener ?c [] empty_world = (Inr (), ?w1)" by (simp add: button_listener_def)
  have p0: "process_events ?c [(16, env_online)] ?w1 = (Inr (), ?w2)"
    by (simp add: handle_event_def OFFSETS_id BUTTONS_def LABELS_def)
  note u = t' [THEN conjunct2, THEN conjunct2, THEN mp, OF n]
  note u4 = u [THEN conjunct2, THEN conjunct2, THEN conjunct2, THEN spec, THEN spec, THEN spec,
               THEN spec, THEN mp, OF conjI, OF l0 p0]
  from u4 have "button_listener ?c ([] @ ([(16, env_online)] @ (7, env_online) # [(6, env_online)]) # [[(6, env_online)]]) empty_world
                = (Inl (Exn ValueError ''is not in list''), ?w2)" .
  then have e: "button_listener ?c [[(16, env_online), (7, env_online), (6, env_online)], [(6, env_online)]]
       empty_world = (Inl (Exn ValueError ''is not in list''), ?w2)" by simp
  from m d n a b c e show ?thesis by (intro conjI)
qed

end
